theory Spec2Isabelle
  imports Complex_Main "HOL-Library.Char_ord" "HOL-Library.List_Lexorder"
begin

section \<open>The incremental retail ETL pipeline (src/etl/incremental\_etl\_pipeline.py)\<close>

text \<open>
  The pipeline is a Python class whose methods send SQL statements to a warehouse
  through \<^verbatim>\<open>SnowflakeConnection.execute_sql\<close> (src/config/snowflake\_config.py), which
  returns a result table for a SELECT, nothing for any other statement, and re-raises
  every failure. The model passes the warehouse along explicitly as a record of its
  tables. Every statement is one autocommitted unit: it either takes effect or raises
  and leaves the tables as they were. Which statements fail, what the clock shows and
  what the source extract holds is the environment of a run.

  Numbers: quantities and row ordinals are Python's unbounded integers (\<open>int\<close>);
  prices and amounts are exact decimals (\<open>rat\<close>); a timestamp is a number of seconds
  and a calendar day is that number divided by 86400. Cells of the source extract
  carry the result of the library's parsers, which are not code of this repository.
\<close>

subsection \<open>Rendering integers as Python's \<^verbatim>\<open>str\<close> does\<close>

definition digit_char :: "nat \<Rightarrow> char" where
  "digit_char d =
     (if d = 0 then CHR ''0'' else if d = 1 then CHR ''1'' else if d = 2 then CHR ''2''
      else if d = 3 then CHR ''3'' else if d = 4 then CHR ''4'' else if d = 5 then CHR ''5''
      else if d = 6 then CHR ''6'' else if d = 7 then CHR ''7'' else if d = 8 then CHR ''8''
      else CHR ''9'')"

fun str_nat :: "nat \<Rightarrow> string" where
  "str_nat n =
     (if n < 10 then [digit_char n] else str_nat (n div 10) @ [digit_char (n mod 10)])"

declare str_nat.simps [simp del]

definition str_int :: "int \<Rightarrow> string" where
  "str_int i = (if i < 0 then CHR ''-'' # str_nat (nat (- i)) else str_nat (nat i))"

subsection \<open>SQL helpers: LIKE, aggregates over nullable values, LEAST and GREATEST\<close>

text \<open>\<open>like p s\<close> is SQL's \<^verbatim>\<open>s LIKE p\<close>: \<^verbatim>\<open>%\<close> matches any run of characters and
  \<^verbatim>\<open>_\<close> any single one.\<close>

fun like :: "string \<Rightarrow> string \<Rightarrow> bool" where
  "like [] [] = True"
| "like [] (c # cs) = False"
| "like (p # ps) [] = (p = CHR ''%'' \<and> like ps [])"
| "like (p # ps) (c # cs) =
     (if p = CHR ''%'' then like ps (c # cs) \<or> like (p # ps) cs
      else (p = CHR ''_'' \<or> p = c) \<and> like ps cs)"

text \<open>A nullable SQL value is an \<open>option\<close>; aggregates skip the NULLs.\<close>

definition non_null :: "'a option list \<Rightarrow> 'a list" where
  "non_null xs = map the (filter (\<lambda>x. x \<noteq> None) xs)"

definition sql_min :: "('a::linorder) option list \<Rightarrow> 'a option" where
  "sql_min xs = (case non_null xs of [] \<Rightarrow> None | y # ys \<Rightarrow> Some (fold min ys y))"

definition sql_max :: "('a::linorder) option list \<Rightarrow> 'a option" where
  "sql_max xs = (case non_null xs of [] \<Rightarrow> None | y # ys \<Rightarrow> Some (fold max ys y))"

definition sql_avg :: "rat option list \<Rightarrow> rat option" where
  "sql_avg xs =
     (case non_null xs of [] \<Rightarrow> None
      | y # ys \<Rightarrow> Some (sum_list (y # ys) / of_nat (length (y # ys))))"

definition count_distinct :: "'a option list \<Rightarrow> int" where
  "count_distinct xs = int (length (remdups (non_null xs)))"

text \<open>LEAST and GREATEST are NULL as soon as one argument is; so is arithmetic.\<close>

definition sql_least :: "('a::linorder) option \<Rightarrow> 'a option \<Rightarrow> 'a option" where
  "sql_least a b =
     (case a of None \<Rightarrow> None | Some x \<Rightarrow> (case b of None \<Rightarrow> None | Some y \<Rightarrow> Some (min x y)))"

definition sql_greatest :: "('a::linorder) option \<Rightarrow> 'a option \<Rightarrow> 'a option" where
  "sql_greatest a b =
     (case a of None \<Rightarrow> None | Some x \<Rightarrow> (case b of None \<Rightarrow> None | Some y \<Rightarrow> Some (max x y)))"

definition coalesce :: "'a option \<Rightarrow> 'a option \<Rightarrow> 'a option" where
  "coalesce a b = (case a of None \<Rightarrow> b | Some x \<Rightarrow> Some x)"

definition mean_of_two :: "rat option \<Rightarrow> rat option \<Rightarrow> rat option" where
  "mean_of_two a b =
     (case a of None \<Rightarrow> None | Some x \<Rightarrow> (case b of None \<Rightarrow> None | Some y \<Rightarrow> Some ((x + y) / 2)))"

subsection \<open>Data model\<close>

type_synonym timestamp = int

definition day_of :: "timestamp \<Rightarrow> int" where
  "day_of t = t div 86400"

text \<open>\<open>current_date t\<close> is midnight of the day of \<open>t\<close>, as a timestamp.\<close>

definition current_date :: "timestamp \<Rightarrow> timestamp" where
  "current_date t = day_of t * 86400"

text \<open>A cell of the extract after the library's parser: empty, not parseable, or a value.\<close>

datatype 'a cell = Null | Unparseable | Parsed 'a

fun coerce :: "'a cell \<Rightarrow> 'a option" where
  "coerce (Parsed v) = Some v"
| "coerce Unparseable = None"
| "coerce Null = None"

record raw_record =
  raw_invoice_no :: "string option"
  raw_stock_code :: "string option"
  raw_description :: "string option"
  raw_quantity :: "int cell"
  raw_invoice_date :: "timestamp cell"
  raw_unit_price :: "rat cell"
  raw_customer_id :: "int cell"
  raw_country :: "string option"

text \<open>A row of ONLINE\_RETAIL\_STAGING, with the columns the pipeline writes.\<close>

record staged =
  INVOICE_NO :: string
  STOCK_CODE :: string
  DESCRIPTION :: "string option"
  QUANTITY :: int
  INVOICE_DATE :: timestamp
  UNIT_PRICE :: rat
  CUSTOMER_ID :: "int option"
  COUNTRY :: string
  LOAD_TIMESTAMP :: timestamp
  FILE_NAME :: string
  ROW_NUMBER_IN_FILE :: int
  DATA_SOURCE :: string
  HAS_MISSING_CUSTOMER_ID :: bool
  IS_RETURN :: bool
  TOTAL_AMOUNT :: rat

record product =
  P_DESCRIPTION :: "string option"
  TOTAL_QUANTITY_SOLD :: int
  P_TOTAL_REVENUE :: rat
  AVERAGE_UNIT_PRICE :: "rat option"
  MIN_UNIT_PRICE :: "rat option"
  MAX_UNIT_PRICE :: "rat option"
  FIRST_SALE_DATE :: "timestamp option"
  LAST_SALE_DATE :: "timestamp option"
  UNIQUE_CUSTOMERS :: int
  P_UPDATED_AT :: "timestamp option"

record customer =
  C_COUNTRY :: "string option"
  FIRST_PURCHASE_DATE :: "timestamp option"
  LAST_PURCHASE_DATE :: "timestamp option"
  C_TOTAL_ORDERS :: int
  TOTAL_ITEMS_PURCHASED :: int
  TOTAL_AMOUNT_SPENT :: rat
  AVERAGE_ORDER_VALUE :: "rat option"
  CUSTOMER_SEGMENT :: "string option"
  DAYS_SINCE_LAST_PURCHASE :: "int option"
  C_UPDATED_AT :: "timestamp option"

record country =
  TOTAL_CUSTOMERS :: int
  K_TOTAL_ORDERS :: int
  K_TOTAL_REVENUE :: rat
  FIRST_ORDER_DATE :: "timestamp option"
  LAST_ORDER_DATE :: "timestamp option"
  K_UPDATED_AT :: "timestamp option"

record fact =
  TRANSACTION_ID :: string
  F_INVOICE_NO :: string
  F_STOCK_CODE :: string
  F_CUSTOMER_ID :: "int option"
  F_DESCRIPTION :: "string option"
  F_QUANTITY :: int
  F_UNIT_PRICE :: rat
  F_TOTAL_AMOUNT :: rat
  F_INVOICE_DATE :: timestamp
  INVOICE_YEAR :: int
  INVOICE_MONTH :: int
  INVOICE_DAY_OF_WEEK :: int
  F_COUNTRY :: string
  TRANSACTION_TYPE :: string
  IS_GUEST_PURCHASE :: bool
  SOURCE_FILE :: string

record log_entry =
  PIPELINE_NAME :: string
  PIPELINE_VERSION :: string
  EXECUTION_TYPE :: string
  STATUS :: string
  EXECUTED_BY :: string
  ROWS_PROCESSED :: int
  EXECUTION_CONTEXT :: "int \<times> int \<times> int"
  START_TIME :: timestamp
  END_TIME :: "timestamp option"
  ROWS_INSERTED :: "int option"
  ERROR_MESSAGE :: "string option"

record warehouse =
  staging :: "staged list"
  products :: "string \<rightharpoonup> product"
  customers :: "int \<rightharpoonup> customer"
  countries :: "string \<rightharpoonup> country"
  transactions :: "fact list"
  exec_log :: "log_entry list"

text \<open>The statements and reads of one run, in the order the pipeline issues them.\<close>

datatype step =
    LastRowQuery | LogStart | ReadCsv | ParseDates | ExistingKeysQuery | KeyConcat
  | StagingInsert int
  | ProductsMerge | CustomersMerge | SegmentUpdate | CountriesMerge | FactInsert | LogEnd

text \<open>An exception, tagged with the step that raised it.\<close>

datatype error = Raised step

text \<open>
  The environment of a run: the data rows of the extract in file order, the steps
  that raise (\<open>ParseDates\<close> and \<open>KeyConcat\<close> raise on the data, not on this flag),
  the text of the exception of each step, the clock at each step, the calendar functions
  of the warehouse (\<^verbatim>\<open>YEAR\<close>, \<^verbatim>\<open>MONTH\<close>, \<^verbatim>\<open>DAYOFWEEK\<close>), and the value that the
  column default gives \<^verbatim>\<open>UPDATED_AT\<close> in an inserted aggregate row (the table
  declarations are not part of the source).

  \<^verbatim>\<open>pd.read_csv\<close> is called without \<^verbatim>\<open>dtype\<close>, so the library infers the type of
  every column from the cells of the frame it reads: a text column whose cells all read
  as numbers comes out numeric. \<open>numeric_column\<close> is that decision, from the cells of
  the column, and \<open>str_number\<close> is the text that Python's \<^verbatim>\<open>str\<close> gives a cell of
  a numeric column (it depends on the column: \<^verbatim>\<open>536365\<close> in an integer column,
  \<^verbatim>\<open>536365.0\<close> in a column with a missing cell). Both are library code and
  parameters of the model.
\<close>

record env =
  csv_rows :: "raw_record list"
  fails :: "step \<Rightarrow> bool"
  error_text :: "step \<Rightarrow> string"
  numeric_column :: "string option list \<Rightarrow> bool"
  str_number :: "string option list \<Rightarrow> string \<Rightarrow> string"
  clock :: "step \<Rightarrow> timestamp"
  year_of :: "timestamp \<Rightarrow> int"
  month_of :: "timestamp \<Rightarrow> int"
  dayofweek_of :: "timestamp \<Rightarrow> int"
  default_updated_at :: "timestamp option"

definition batch_size :: int where
  "batch_size = 1000"

subsection \<open>High-water mark and batch window\<close>

text \<open>\<^verbatim>\<open>get_last_processed_row\<close>: \<^verbatim>\<open>SELECT MAX(ROW_NUMBER_IN_FILE)\<close>; 0 when the
  maximum is NULL (empty table) or when the query raises. A SELECT hands the
  warehouse back as it was.\<close>

definition get_last_processed_row :: "env \<Rightarrow> warehouse \<Rightarrow> int \<times> warehouse" where
  "get_last_processed_row e s =
     (if fails e LastRowQuery then (0, s)
      else (case sql_max (map (\<lambda>r. Some (ROW_NUMBER_IN_FILE r)) (staging s)) of
              None \<Rightarrow> (0, s)
            | Some last_row \<Rightarrow> (last_row, s)))"

text \<open>The head of \<^verbatim>\<open>run_incremental_batch\<close>: batch number, start row and end row.\<close>

definition resolve_window ::
  "env \<Rightarrow> warehouse \<Rightarrow> int option \<Rightarrow> (int \<times> int \<times> int) \<times> warehouse" where
  "resolve_window e s batch_number =
     (let (n, s1) =
            (case batch_number of
               None \<Rightarrow> (let (last_row, s1) = get_last_processed_row e s
                        in (last_row div batch_size + 1, s1))
             | Some n \<Rightarrow> (n, s));
          start_row = (n - 1) * batch_size + 1;
          end_row = n * batch_size
      in ((n, start_row, end_row), s1))"

subsection \<open>Execution log\<close>

definition execution_type :: "int \<Rightarrow> string" where
  "execution_type batch_number = ''BATCH_'' @ str_int batch_number"

text \<open>\<^verbatim>\<open>log_batch_start\<close>: one INSERT; a failure is logged as a warning and
  swallowed. \<^verbatim>\<open>START_TIME\<close> is not in the column list; the model stamps
  the time of the INSERT, the start timestamp that the data model of the log gives
  every entry.\<close>

definition running_entry :: "env \<Rightarrow> int \<Rightarrow> int \<Rightarrow> int \<Rightarrow> log_entry" where
  "running_entry e batch_number start_row end_row =
     \<lparr>PIPELINE_NAME = ''INCREMENTAL_ETL'', PIPELINE_VERSION = ''1.0'',
      EXECUTION_TYPE = execution_type batch_number, STATUS = ''RUNNING'',
      EXECUTED_BY = ''ETL_PIPELINE'', ROWS_PROCESSED = end_row - start_row + 1,
      EXECUTION_CONTEXT = (batch_number, start_row, end_row),
      START_TIME = clock e LogStart, END_TIME = None, ROWS_INSERTED = None,
      ERROR_MESSAGE = None\<rparr>"

definition log_batch_start :: "env \<Rightarrow> warehouse \<Rightarrow> int \<Rightarrow> int \<Rightarrow> int \<Rightarrow> warehouse" where
  "log_batch_start e s batch_number start_row end_row =
     (if fails e LogStart then s
      else s\<lparr>exec_log := exec_log s @ [running_entry e batch_number start_row end_row]\<rparr>)"

definition this_batch :: "int \<Rightarrow> log_entry \<Rightarrow> bool" where
  "this_batch batch_number l =
     (PIPELINE_NAME l = ''INCREMENTAL_ETL'' \<and> EXECUTION_TYPE l = execution_type batch_number)"

definition latest_start :: "int \<Rightarrow> log_entry list \<Rightarrow> timestamp option" where
  "latest_start batch_number ls =
     sql_max (map (\<lambda>l. Some (START_TIME l)) (filter (this_batch batch_number) ls))"

text \<open>\<^verbatim>\<open>log_batch_end\<close> pastes the error message between two apostrophes without
  escaping it: \<^verbatim>\<open>ERROR_MESSAGE = '{error_msg}'\<close>. \<open>sql_literal m\<close> is the value of that
  literal: two apostrophes in a row stand for one, and an apostrophe that is not
  followed by another ends the literal early, which leaves a statement that does not
  parse (\<open>None\<close>). This is the quoting of standard SQL; escapes with a backslash,
  which some dialects add, are not modelled.\<close>

fun sql_literal :: "string \<Rightarrow> string option" where
  "sql_literal [] = Some []"
| "sql_literal [c] = (if c = CHR 0x27 then None else Some [c])"
| "sql_literal (c # d # cs) =
     (if c = CHR 0x27
      then (if d = CHR 0x27 then map_option (\<lambda>v. CHR 0x27 # v) (sql_literal cs) else None)
      else map_option (\<lambda>v. c # v) (sql_literal (d # cs)))"

text \<open>The error clause is there only for a non-empty message.\<close>

definition error_clause :: "string option \<Rightarrow> string option" where
  "error_clause error_msg =
     (case error_msg of None \<Rightarrow> None | Some m \<Rightarrow> if m = [] then None else Some m)"

text \<open>The UPDATE raises when the environment has it fail or when its text does not
  parse.\<close>

definition log_end_raises :: "env \<Rightarrow> string option \<Rightarrow> bool" where
  "log_end_raises e error_msg =
     (fails e LogEnd
      \<or> (case error_clause error_msg of None \<Rightarrow> False | Some m \<Rightarrow> sql_literal m = None))"

text \<open>The SET clause of the UPDATE.\<close>

definition close_entry :: "env \<Rightarrow> string \<Rightarrow> int \<Rightarrow> string option \<Rightarrow> log_entry \<Rightarrow> log_entry" where
  "close_entry e status rows_loaded error_msg l =
     l\<lparr>END_TIME := Some (clock e LogEnd), STATUS := status,
       ROWS_INSERTED := Some rows_loaded,
       ERROR_MESSAGE :=
         (case error_clause error_msg of None \<Rightarrow> ERROR_MESSAGE l
          | Some m \<Rightarrow> sql_literal m)\<rparr>"

text \<open>\<^verbatim>\<open>log_batch_end\<close>: one UPDATE of the RUNNING entries of the batch that carry
  its latest start time; a failure is logged as a warning and swallowed.\<close>

definition log_batch_end ::
  "env \<Rightarrow> warehouse \<Rightarrow> int \<Rightarrow> string \<Rightarrow> int \<Rightarrow> string option \<Rightarrow> warehouse" where
  "log_batch_end e s batch_number status rows_loaded error_msg =
     (if log_end_raises e error_msg then s
      else s\<lparr>exec_log :=
        map (\<lambda>l. if this_batch batch_number l \<and> STATUS l = ''RUNNING''
                     \<and> Some (START_TIME l) = latest_start batch_number (exec_log s)
                  then close_entry e status rows_loaded error_msg l
                  else l)
            (exec_log s)\<rparr>)"

subsection \<open>Staging load\<close>

text \<open>\<^verbatim>\<open>pd.read_csv(csv_file, skiprows=range(1, start_row), nrows=end_row - start_row + 1)\<close>:
  line 0 is the header, so the data rows from position \<open>start_row\<close> on.\<close>

definition read_csv :: "env \<Rightarrow> int \<Rightarrow> int \<Rightarrow> raw_record list" where
  "read_csv e start_row end_row =
     take (nat (end_row - start_row + 1)) (drop (nat (start_row - 1)) (csv_rows e))"

text \<open>\<^verbatim>\<open>dropna(subset=[INVOICE_NO, STOCK_CODE, INVOICE_DATE, QUANTITY, UNIT_PRICE])\<close>
  after \<^verbatim>\<open>to_numeric(errors='coerce')\<close> on quantity and unit price.\<close>

definition not_na :: "raw_record \<Rightarrow> bool" where
  "not_na r =
     (raw_invoice_no r \<noteq> None \<and> raw_stock_code r \<noteq> None
      \<and> coerce (raw_invoice_date r) \<noteq> None \<and> coerce (raw_quantity r) \<noteq> None
      \<and> coerce (raw_unit_price r) \<noteq> None)"

definition nonzero_quantity :: "raw_record \<Rightarrow> bool" where
  "nonzero_quantity r = (coerce (raw_quantity r) \<noteq> Some 0)"

definition data_source :: "int \<Rightarrow> string" where
  "data_source batch_number = ''CSV_BATCH_'' @ str_int batch_number"

text \<open>The text of a cell of a text column, as the INSERT loop takes it with
  \<^verbatim>\<open>str(row[...])\<close>: the cell itself in a column of strings, the rendering of the
  number in a column that was read as numeric, and \<^verbatim>\<open>nan\<close> for a missing cell.
  \<open>column\<close> holds the cells of the column in the frame as it was read.\<close>

definition cell_text :: "env \<Rightarrow> string option list \<Rightarrow> string option \<Rightarrow> string" where
  "cell_text e column c =
     (case c of None \<Rightarrow> ''nan''
      | Some v \<Rightarrow> if numeric_column e column then str_number e column v else v)"

text \<open>The metadata columns and the values of the INSERT for the row that gets ordinal
  \<open>row_number\<close>; \<open>frame\<close> is the frame as it was read. A description that is missing
  or reads \<^verbatim>\<open>NULL\<close> is stored as NULL. The cases written for a missing quantity,
  date or price do not arise after \<open>not_na\<close>.\<close>

definition to_staged :: "env \<Rightarrow> raw_record list \<Rightarrow> int \<Rightarrow> int \<Rightarrow> raw_record \<Rightarrow> staged" where
  "to_staged e frame batch_number row_number r =
     (let quantity = (case coerce (raw_quantity r) of Some q \<Rightarrow> q | None \<Rightarrow> 0);
          unit_price = (case coerce (raw_unit_price r) of Some p \<Rightarrow> p | None \<Rightarrow> 0)
      in \<lparr>INVOICE_NO = cell_text e (map raw_invoice_no frame) (raw_invoice_no r),
          STOCK_CODE = cell_text e (map raw_stock_code frame) (raw_stock_code r),
          DESCRIPTION =
            (case raw_description r of None \<Rightarrow> None
             | Some d \<Rightarrow>
                 if cell_text e (map raw_description frame) (Some d) = ''NULL'' then None
                 else Some (cell_text e (map raw_description frame) (Some d))),
          QUANTITY = quantity,
          INVOICE_DATE = (case coerce (raw_invoice_date r) of Some t \<Rightarrow> t | None \<Rightarrow> 0),
          UNIT_PRICE = unit_price,
          CUSTOMER_ID = coerce (raw_customer_id r),
          COUNTRY = cell_text e (map raw_country frame) (raw_country r),
          LOAD_TIMESTAMP = clock e ReadCsv,
          FILE_NAME = ''online_retail_batch_'' @ str_int batch_number @ ''.csv'',
          ROW_NUMBER_IN_FILE = row_number,
          DATA_SOURCE = data_source batch_number,
          HAS_MISSING_CUSTOMER_ID = (coerce (raw_customer_id r) = None),
          IS_RETURN = (quantity < 0),
          TOTAL_AMOUNT = of_int quantity * unit_price\<rparr>)"

text \<open>\<^verbatim>\<open>df['ROW_NUMBER_IN_FILE'] = range(start_row, start_row + len(df))\<close>, on the
  rows left after cleaning.\<close>

definition add_metadata ::
  "env \<Rightarrow> raw_record list \<Rightarrow> int \<Rightarrow> int \<Rightarrow> raw_record list \<Rightarrow> staged list" where
  "add_metadata e frame batch_number start_row df =
     map (\<lambda>(k, r). to_staged e frame batch_number (start_row + int k) r) (List.enumerate 0 df)"

definition transaction_key :: "staged \<Rightarrow> string" where
  "transaction_key r =
     INVOICE_NO r @ ''_'' @ STOCK_CODE r @ ''_'' @ str_int (ROW_NUMBER_IN_FILE r)"

text \<open>The rows of the batch after cleaning, before the duplicate check.\<close>

definition candidates :: "env \<Rightarrow> int \<Rightarrow> int \<Rightarrow> int \<Rightarrow> staged list" where
  "candidates e batch_number start_row end_row =
     add_metadata e (read_csv e start_row end_row) batch_number start_row
       (filter nonzero_quantity (filter not_na (read_csv e start_row end_row)))"

text \<open>The key of the duplicate check is built on the frame:
  \<^verbatim>\<open>df['INVOICE_NO'] + '_' + df['STOCK_CODE'] + '_' + ...\<close>. Adding a string to a
  numeric column raises TypeError.\<close>

definition key_concat_raises :: "env \<Rightarrow> raw_record list \<Rightarrow> bool" where
  "key_concat_raises e frame =
     (numeric_column e (map raw_invoice_no frame) \<or> numeric_column e (map raw_stock_code frame))"

text \<open>The INSERT loop: a row whose INSERT raises is logged and skipped.\<close>

fun insert_rows :: "env \<Rightarrow> staged list \<Rightarrow> int \<times> warehouse \<Rightarrow> int \<times> warehouse" where
  "insert_rows e [] (loaded_count, s) = (loaded_count, s)"
| "insert_rows e (r # rs) (loaded_count, s) =
     (if fails e (StagingInsert (ROW_NUMBER_IN_FILE r))
      then insert_rows e rs (loaded_count, s)
      else insert_rows e rs (loaded_count + 1, s\<lparr>staging := staging s @ [r]\<rparr>))"

text \<open>The body of the outer \<^verbatim>\<open>try\<close> of \<^verbatim>\<open>load_batch_to_staging\<close>.
  \<^verbatim>\<open>pd.to_datetime\<close> is called without \<^verbatim>\<open>errors='coerce'\<close>: one date that does not
  parse raises for the whole frame. The duplicate check, and with it the key
  concatenation, runs only when the staging table has rows. Where the program would
  raise on a frame that the cleaning left empty, it returns 0 with nothing written
  either way.\<close>

definition load_body ::
  "env \<Rightarrow> warehouse \<Rightarrow> int \<Rightarrow> int \<Rightarrow> int \<Rightarrow> error + (int \<times> warehouse)" where
  "load_body e s batch_number start_row end_row =
     (if fails e ReadCsv then Inl (Raised ReadCsv)
      else if read_csv e start_row end_row = [] then Inr (0, s)
      else if Unparseable \<in> set (map raw_invoice_date (read_csv e start_row end_row))
      then Inl (Raised ParseDates)
      else if fails e ExistingKeysQuery then Inl (Raised ExistingKeysQuery)
      else if map transaction_key (staging s) \<noteq> []
              \<and> key_concat_raises e (read_csv e start_row end_row)
      then Inl (Raised KeyConcat)
      else
        let existing_keys = map transaction_key (staging s);
            df = candidates e batch_number start_row end_row;
            df = (if existing_keys \<noteq> []
                  then filter (\<lambda>r. transaction_key r \<notin> set existing_keys) df else df)
        in if df = [] then Inr (0, s) else Inr (insert_rows e df (0, s)))"

text \<open>\<^verbatim>\<open>load_batch_to_staging\<close>: the outer \<^verbatim>\<open>except\<close> logs the error and returns 0.\<close>

definition load_batch_to_staging ::
  "env \<Rightarrow> warehouse \<Rightarrow> int \<Rightarrow> int \<Rightarrow> int \<Rightarrow> int \<times> warehouse" where
  "load_batch_to_staging e s batch_number start_row end_row =
     (case load_body e s batch_number start_row end_row of
        Inl err \<Rightarrow> (0, s)
      | Inr result \<Rightarrow> result)"

subsection \<open>Dimension aggregator\<close>

text \<open>The source rows of all three MERGE statements:
  \<^verbatim>\<open>FROM ONLINE_RETAIL_STAGING WHERE DATA_SOURCE LIKE '%BATCH_%'\<close>. The batch number
  is not part of the statement. The \<^verbatim>\<open>IS NOT NULL\<close> tests on stock code and country
  hold for every row of the model.\<close>

definition batch_rows :: "warehouse \<Rightarrow> staged list" where
  "batch_rows s = filter (\<lambda>r. like ''%BATCH_%'' (DATA_SOURCE r)) (staging s)"

definition positive :: "staged \<Rightarrow> bool" where
  "positive r = (QUANTITY r > 0)"

text \<open>\<^verbatim>\<open>CASE WHEN QUANTITY > 0 THEN x ELSE NULL END\<close>.\<close>

definition when_positive :: "(staged \<Rightarrow> 'a) \<Rightarrow> staged \<Rightarrow> 'a option" where
  "when_positive f r = (if positive r then Some (f r) else None)"

record product_delta =
  PD_DESCRIPTION :: "string option"
  NEW_QUANTITY_SOLD :: int
  PD_NEW_REVENUE :: rat
  AVG_UNIT_PRICE :: "rat option"
  PD_MIN_UNIT_PRICE :: "rat option"
  PD_MAX_UNIT_PRICE :: "rat option"
  PD_FIRST_SALE_DATE :: "timestamp option"
  PD_LAST_SALE_DATE :: "timestamp option"
  NEW_UNIQUE_CUSTOMERS :: int

record customer_delta =
  CD_COUNTRY :: "string option"
  CD_FIRST_PURCHASE_DATE :: "timestamp option"
  CD_LAST_PURCHASE_DATE :: "timestamp option"
  CD_NEW_ORDERS :: int
  NEW_ITEMS_PURCHASED :: int
  NEW_AMOUNT_SPENT :: rat
  AVG_ORDER_VALUE :: "rat option"

record country_delta =
  NEW_CUSTOMERS :: int
  KD_NEW_ORDERS :: int
  KD_NEW_REVENUE :: rat
  KD_FIRST_ORDER_DATE :: "timestamp option"
  KD_LAST_ORDER_DATE :: "timestamp option"

text \<open>The aggregates of one group of the products subquery.\<close>

definition product_group :: "staged list \<Rightarrow> product_delta" where
  "product_group g =
     \<lparr>PD_DESCRIPTION = sql_max (map DESCRIPTION g),
      NEW_QUANTITY_SOLD = sum_list (map (\<lambda>r. if positive r then QUANTITY r else 0) g),
      PD_NEW_REVENUE = sum_list (map (\<lambda>r. if positive r then TOTAL_AMOUNT r else 0) g),
      AVG_UNIT_PRICE = sql_avg (map (when_positive UNIT_PRICE) g),
      PD_MIN_UNIT_PRICE = sql_min (map (when_positive UNIT_PRICE) g),
      PD_MAX_UNIT_PRICE = sql_max (map (when_positive UNIT_PRICE) g),
      PD_FIRST_SALE_DATE = sql_min (map (when_positive INVOICE_DATE) g),
      PD_LAST_SALE_DATE = sql_max (map (when_positive INVOICE_DATE) g),
      NEW_UNIQUE_CUSTOMERS =
        count_distinct (map (\<lambda>r. if positive r then CUSTOMER_ID r else None) g)\<rparr>"

text \<open>The products subquery, as a map from the GROUP BY key to the row of its group.\<close>

definition products_source :: "warehouse \<Rightarrow> string \<rightharpoonup> product_delta" where
  "products_source s k =
     (let g = filter (\<lambda>r. STOCK_CODE r = k) (batch_rows s)
      in if g = [] then None else Some (product_group g))"

definition product_matched :: "timestamp \<Rightarrow> product \<Rightarrow> product_delta \<Rightarrow> product" where
  "product_matched now target source =
     \<lparr>P_DESCRIPTION = coalesce (PD_DESCRIPTION source) (P_DESCRIPTION target),
      TOTAL_QUANTITY_SOLD = TOTAL_QUANTITY_SOLD target + NEW_QUANTITY_SOLD source,
      P_TOTAL_REVENUE = P_TOTAL_REVENUE target + PD_NEW_REVENUE source,
      AVERAGE_UNIT_PRICE = mean_of_two (AVERAGE_UNIT_PRICE target) (AVG_UNIT_PRICE source),
      MIN_UNIT_PRICE = sql_least (MIN_UNIT_PRICE target) (PD_MIN_UNIT_PRICE source),
      MAX_UNIT_PRICE = sql_greatest (MAX_UNIT_PRICE target) (PD_MAX_UNIT_PRICE source),
      FIRST_SALE_DATE = sql_least (FIRST_SALE_DATE target) (PD_FIRST_SALE_DATE source),
      LAST_SALE_DATE = sql_greatest (LAST_SALE_DATE target) (PD_LAST_SALE_DATE source),
      UNIQUE_CUSTOMERS = UNIQUE_CUSTOMERS target + NEW_UNIQUE_CUSTOMERS source,
      P_UPDATED_AT = Some now\<rparr>"

definition product_not_matched :: "timestamp option \<Rightarrow> product_delta \<Rightarrow> product" where
  "product_not_matched dflt source =
     \<lparr>P_DESCRIPTION = PD_DESCRIPTION source,
      TOTAL_QUANTITY_SOLD = NEW_QUANTITY_SOLD source,
      P_TOTAL_REVENUE = PD_NEW_REVENUE source,
      AVERAGE_UNIT_PRICE = AVG_UNIT_PRICE source,
      MIN_UNIT_PRICE = PD_MIN_UNIT_PRICE source,
      MAX_UNIT_PRICE = PD_MAX_UNIT_PRICE source,
      FIRST_SALE_DATE = PD_FIRST_SALE_DATE source,
      LAST_SALE_DATE = PD_LAST_SALE_DATE source,
      UNIQUE_CUSTOMERS = NEW_UNIQUE_CUSTOMERS source,
      P_UPDATED_AT = dflt\<rparr>"

text \<open>\<^verbatim>\<open>MERGE INTO target USING source ON target.key = source.key\<close> with a
  WHEN MATCHED and a WHEN NOT MATCHED branch.\<close>

definition merge_into ::
  "('k \<rightharpoonup> 't) \<Rightarrow> ('k \<rightharpoonup> 'd) \<Rightarrow> ('t \<Rightarrow> 'd \<Rightarrow> 't) \<Rightarrow> ('d \<Rightarrow> 't) \<Rightarrow> ('k \<rightharpoonup> 't)" where
  "merge_into target source matched not_matched =
     (\<lambda>k. case source k of
             None \<Rightarrow> target k
           | Some d \<Rightarrow> (case target k of
                          Some t \<Rightarrow> Some (matched t d)
                        | None \<Rightarrow> Some (not_matched d)))"

definition products_merge :: "env \<Rightarrow> warehouse \<Rightarrow> warehouse" where
  "products_merge e s =
     s\<lparr>products := merge_into (products s) (products_source s)
         (product_matched (clock e ProductsMerge)) (product_not_matched (default_updated_at e))\<rparr>"

text \<open>The customers subquery: rows with a customer id and a positive quantity.\<close>

definition customer_group :: "staged list \<Rightarrow> customer_delta" where
  "customer_group g =
     \<lparr>CD_COUNTRY = sql_max (map (\<lambda>r. Some (COUNTRY r)) g),
      CD_FIRST_PURCHASE_DATE = sql_min (map (\<lambda>r. Some (INVOICE_DATE r)) g),
      CD_LAST_PURCHASE_DATE = sql_max (map (\<lambda>r. Some (INVOICE_DATE r)) g),
      CD_NEW_ORDERS = count_distinct (map (\<lambda>r. Some (INVOICE_NO r)) g),
      NEW_ITEMS_PURCHASED = sum_list (map (\<lambda>r. if positive r then QUANTITY r else 0) g),
      NEW_AMOUNT_SPENT = sum_list (map (\<lambda>r. if positive r then TOTAL_AMOUNT r else 0) g),
      AVG_ORDER_VALUE = sql_avg (map (when_positive TOTAL_AMOUNT) g)\<rparr>"

definition customers_source :: "warehouse \<Rightarrow> int \<rightharpoonup> customer_delta" where
  "customers_source s k =
     (let g = filter (\<lambda>r. CUSTOMER_ID r = Some k \<and> positive r) (batch_rows s)
      in if g = [] then None else Some (customer_group g))"

text \<open>The segment and the days since the last purchase are not set by the MERGE.\<close>

definition customer_matched :: "timestamp \<Rightarrow> customer \<Rightarrow> customer_delta \<Rightarrow> customer" where
  "customer_matched now target source =
     target\<lparr>C_COUNTRY := coalesce (CD_COUNTRY source) (C_COUNTRY target),
       FIRST_PURCHASE_DATE :=
         sql_least (FIRST_PURCHASE_DATE target) (CD_FIRST_PURCHASE_DATE source),
       LAST_PURCHASE_DATE :=
         sql_greatest (LAST_PURCHASE_DATE target) (CD_LAST_PURCHASE_DATE source),
       C_TOTAL_ORDERS := C_TOTAL_ORDERS target + CD_NEW_ORDERS source,
       TOTAL_ITEMS_PURCHASED := TOTAL_ITEMS_PURCHASED target + NEW_ITEMS_PURCHASED source,
       TOTAL_AMOUNT_SPENT := TOTAL_AMOUNT_SPENT target + NEW_AMOUNT_SPENT source,
       AVERAGE_ORDER_VALUE :=
         mean_of_two (AVERAGE_ORDER_VALUE target) (AVG_ORDER_VALUE source),
       C_UPDATED_AT := Some now\<rparr>"

definition customer_not_matched :: "timestamp option \<Rightarrow> customer_delta \<Rightarrow> customer" where
  "customer_not_matched dflt source =
     \<lparr>C_COUNTRY = CD_COUNTRY source,
      FIRST_PURCHASE_DATE = CD_FIRST_PURCHASE_DATE source,
      LAST_PURCHASE_DATE = CD_LAST_PURCHASE_DATE source,
      C_TOTAL_ORDERS = CD_NEW_ORDERS source,
      TOTAL_ITEMS_PURCHASED = NEW_ITEMS_PURCHASED source,
      TOTAL_AMOUNT_SPENT = NEW_AMOUNT_SPENT source,
      AVERAGE_ORDER_VALUE = AVG_ORDER_VALUE source,
      CUSTOMER_SEGMENT = None,
      DAYS_SINCE_LAST_PURCHASE = None,
      C_UPDATED_AT = dflt\<rparr>"

definition customers_merge :: "env \<Rightarrow> warehouse \<Rightarrow> warehouse" where
  "customers_merge e s =
     s\<lparr>customers := merge_into (customers s) (customers_source s)
         (customer_matched (clock e CustomersMerge))
         (customer_not_matched (default_updated_at e))\<rparr>"

text \<open>The CASE of the segment UPDATE, first matching branch first.\<close>

definition segment_of :: "rat \<Rightarrow> string" where
  "segment_of spent =
     (if spent \<ge> 10000 then ''VIP''
      else if spent \<ge> 5000 then ''HIGH_VALUE''
      else if spent \<ge> 1000 then ''MEDIUM_VALUE''
      else if spent > 0 then ''LOW_VALUE''
      else ''NEW'')"

text \<open>\<^verbatim>\<open>WHERE UPDATED_AT >= CURRENT_DATE()\<close>; a NULL \<^verbatim>\<open>UPDATED_AT\<close> does not pass.\<close>

definition updated_today :: "timestamp \<Rightarrow> customer \<Rightarrow> bool" where
  "updated_today now c =
     (case C_UPDATED_AT c of None \<Rightarrow> False | Some u \<Rightarrow> u \<ge> current_date now)"

definition resegment :: "timestamp \<Rightarrow> customer \<Rightarrow> customer" where
  "resegment now c =
     (if updated_today now c
      then c\<lparr>CUSTOMER_SEGMENT := Some (segment_of (TOTAL_AMOUNT_SPENT c)),
             DAYS_SINCE_LAST_PURCHASE :=
               map_option (\<lambda>last. day_of now - day_of last) (LAST_PURCHASE_DATE c)\<rparr>
      else c)"

definition segment_update :: "env \<Rightarrow> warehouse \<Rightarrow> warehouse" where
  "segment_update e s =
     s\<lparr>customers := (\<lambda>k. map_option (resegment (clock e SegmentUpdate)) (customers s k))\<rparr>"

text \<open>The countries subquery: every row of \<open>batch_rows\<close>, sale or return.\<close>

definition country_group :: "staged list \<Rightarrow> country_delta" where
  "country_group g =
     \<lparr>NEW_CUSTOMERS = count_distinct (map CUSTOMER_ID g),
      KD_NEW_ORDERS = count_distinct (map (\<lambda>r. Some (INVOICE_NO r)) g),
      KD_NEW_REVENUE = sum_list (map (\<lambda>r. if positive r then TOTAL_AMOUNT r else 0) g),
      KD_FIRST_ORDER_DATE = sql_min (map (\<lambda>r. Some (INVOICE_DATE r)) g),
      KD_LAST_ORDER_DATE = sql_max (map (\<lambda>r. Some (INVOICE_DATE r)) g)\<rparr>"

definition countries_source :: "warehouse \<Rightarrow> string \<rightharpoonup> country_delta" where
  "countries_source s k =
     (let g = filter (\<lambda>r. COUNTRY r = k) (batch_rows s)
      in if g = [] then None else Some (country_group g))"

definition country_matched :: "timestamp \<Rightarrow> country \<Rightarrow> country_delta \<Rightarrow> country" where
  "country_matched now target source =
     \<lparr>TOTAL_CUSTOMERS = TOTAL_CUSTOMERS target + NEW_CUSTOMERS source,
      K_TOTAL_ORDERS = K_TOTAL_ORDERS target + KD_NEW_ORDERS source,
      K_TOTAL_REVENUE = K_TOTAL_REVENUE target + KD_NEW_REVENUE source,
      FIRST_ORDER_DATE = sql_least (FIRST_ORDER_DATE target) (KD_FIRST_ORDER_DATE source),
      LAST_ORDER_DATE = sql_greatest (LAST_ORDER_DATE target) (KD_LAST_ORDER_DATE source),
      K_UPDATED_AT = Some now\<rparr>"

definition country_not_matched :: "timestamp option \<Rightarrow> country_delta \<Rightarrow> country" where
  "country_not_matched dflt source =
     \<lparr>TOTAL_CUSTOMERS = NEW_CUSTOMERS source,
      K_TOTAL_ORDERS = KD_NEW_ORDERS source,
      K_TOTAL_REVENUE = KD_NEW_REVENUE source,
      FIRST_ORDER_DATE = KD_FIRST_ORDER_DATE source,
      LAST_ORDER_DATE = KD_LAST_ORDER_DATE source,
      K_UPDATED_AT = dflt\<rparr>"

definition countries_merge :: "env \<Rightarrow> warehouse \<Rightarrow> warehouse" where
  "countries_merge e s =
     s\<lparr>countries := merge_into (countries s) (countries_source s)
         (country_matched (clock e CountriesMerge))
         (country_not_matched (default_updated_at e))\<rparr>"

text \<open>\<^verbatim>\<open>update_dimensions_incremental\<close>: four statements in a row; the first that
  raises is logged and re-raised, and what the earlier ones wrote stays. The error
  comes with the warehouse as the failure left it.\<close>

definition update_dimensions_incremental ::
  "env \<Rightarrow> warehouse \<Rightarrow> int \<Rightarrow> (error \<times> warehouse) + warehouse" where
  "update_dimensions_incremental e s batch_number =
     (if fails e ProductsMerge then Inl (Raised ProductsMerge, s)
      else let s1 = products_merge e s in
        if fails e CustomersMerge then Inl (Raised CustomersMerge, s1)
        else let s2 = customers_merge e s1 in
          if fails e SegmentUpdate then Inl (Raised SegmentUpdate, s2)
          else let s3 = segment_update e s2 in
            if fails e CountriesMerge then Inl (Raised CountriesMerge, s3)
            else Inr (countries_merge e s3))"

subsection \<open>Fact publisher\<close>

definition to_fact :: "env \<Rightarrow> staged \<Rightarrow> fact" where
  "to_fact e r =
     \<lparr>TRANSACTION_ID = transaction_key r,
      F_INVOICE_NO = INVOICE_NO r,
      F_STOCK_CODE = STOCK_CODE r,
      F_CUSTOMER_ID = CUSTOMER_ID r,
      F_DESCRIPTION = DESCRIPTION r,
      F_QUANTITY = QUANTITY r,
      F_UNIT_PRICE = UNIT_PRICE r,
      F_TOTAL_AMOUNT = TOTAL_AMOUNT r,
      F_INVOICE_DATE = INVOICE_DATE r,
      INVOICE_YEAR = year_of e (INVOICE_DATE r),
      INVOICE_MONTH = month_of e (INVOICE_DATE r),
      INVOICE_DAY_OF_WEEK = dayofweek_of e (INVOICE_DATE r),
      F_COUNTRY = COUNTRY r,
      TRANSACTION_TYPE =
        (if QUANTITY r > 0 then ''SALE'' else if QUANTITY r < 0 then ''RETURN'' else ''UNKNOWN''),
      IS_GUEST_PURCHASE = (CUSTOMER_ID r = None),
      SOURCE_FILE = FILE_NAME r\<rparr>"

text \<open>\<^verbatim>\<open>append_to_transactions_fact\<close>: one INSERT ... SELECT over the rows with
  \<^verbatim>\<open>DATA_SOURCE = 'CSV_BATCH_<n>'\<close> and a quantity other than 0 (the
  \<^verbatim>\<open>IS NOT NULL\<close> tests hold for every row of the model).\<close>

definition append_to_transactions_fact ::
  "env \<Rightarrow> warehouse \<Rightarrow> int \<Rightarrow> (error \<times> warehouse) + warehouse" where
  "append_to_transactions_fact e s batch_number =
     (if fails e FactInsert then Inl (Raised FactInsert, s)
      else Inr (s\<lparr>transactions := transactions s @
              map (to_fact e)
                (filter (\<lambda>r. DATA_SOURCE r = data_source batch_number \<and> QUANTITY r \<noteq> 0)
                   (staging s))\<rparr>))"

subsection \<open>Orchestrator\<close>

definition str_error :: "env \<Rightarrow> error \<Rightarrow> string" where
  "str_error e err = (case err of Raised st \<Rightarrow> error_text e st)"

text \<open>\<^verbatim>\<open>run_incremental_batch\<close>. The two calls of \<^verbatim>\<open>get_data_summary\<close> only count
  rows for the printed summary and swallow their own failures. The \<^verbatim>\<open>except\<close>
  branch passes 0 as the number of rows loaded.\<close>

definition run_incremental_batch :: "env \<Rightarrow> warehouse \<Rightarrow> int option \<Rightarrow> bool \<times> warehouse" where
  "run_incremental_batch e s batch_number =
     (let ((n, start_row, end_row), s0) = resolve_window e s batch_number;
          s1 = log_batch_start e s0 n start_row end_row;
          (loaded_count, s2) = load_batch_to_staging e s1 n start_row end_row
      in if loaded_count = 0
         then (False, log_batch_end e s2 n ''COMPLETED'' 0 (Some ''No new data to load''))
         else
           (case update_dimensions_incremental e s2 n of
              Inl (err, s3) \<Rightarrow> (False, log_batch_end e s3 n ''FAILED'' 0 (Some (str_error e err)))
            | Inr s3 \<Rightarrow>
                (case append_to_transactions_fact e s3 n of
                   Inl (err, s4) \<Rightarrow>
                     (False, log_batch_end e s4 n ''FAILED'' 0 (Some (str_error e err)))
                 | Inr s4 \<Rightarrow> (True, log_batch_end e s4 n ''COMPLETED'' loaded_count None))))"


definition empty_warehouse :: warehouse where
  "empty_warehouse =
     \<lparr>staging = [], products = Map.empty, customers = Map.empty, countries = Map.empty,
      transactions = [], exec_log = []\<rparr>"

subsection \<open>Notions used in the statements\<close>

text \<open>The candidates of a batch that pass the duplicate check against the staging
  table, the rows a load writes (those whose INSERT does not raise), and the log entry
  of an attempt once \<^verbatim>\<open>log_batch_end\<close> has closed it.\<close>

definition deduplicated :: "env \<Rightarrow> warehouse \<Rightarrow> int \<Rightarrow> int \<Rightarrow> int \<Rightarrow> staged list" where
  "deduplicated e s batch_number start_row end_row =
     (if staging s = [] then candidates e batch_number start_row end_row
      else filter (\<lambda>r. transaction_key r \<notin> transaction_key ` set (staging s))
             (candidates e batch_number start_row end_row))"

definition written :: "env \<Rightarrow> warehouse \<Rightarrow> int \<Rightarrow> int \<Rightarrow> int \<Rightarrow> staged list" where
  "written e s batch_number start_row end_row =
     (case load_body e s batch_number start_row end_row of
        Inl err \<Rightarrow> []
      | Inr r \<Rightarrow> filter (\<lambda>r. \<not> fails e (StagingInsert (ROW_NUMBER_IN_FILE r)))
                  (deduplicated e s batch_number start_row end_row))"

definition finished_entry ::
  "env \<Rightarrow> int \<Rightarrow> int \<Rightarrow> int \<Rightarrow> string \<Rightarrow> int \<Rightarrow> string option \<Rightarrow> log_entry" where
  "finished_entry e n start_row end_row status rows msg =
     (running_entry e n start_row end_row)
       \<lparr>END_TIME := Some (clock e LogEnd), STATUS := status, ROWS_INSERTED := Some rows,
        ERROR_MESSAGE :=
          (case error_clause msg of None \<Rightarrow> None | Some m \<Rightarrow> sql_literal m)\<rparr>"

text \<open>The positive-quantity delta of a batch for a stock code, in the words of the
  specification: over the staged records that carry the provenance tag of that batch.\<close>

definition positive_quantity_delta :: "warehouse \<Rightarrow> int \<Rightarrow> string \<Rightarrow> int" where
  "positive_quantity_delta s batch_number stock_code =
     sum_list (map QUANTITY
       (filter (\<lambda>r. DATA_SOURCE r = data_source batch_number \<and> STOCK_CODE r = stock_code
                     \<and> QUANTITY r > 0) (staging s)))"

text \<open>The average unit price of a batch for a stock code and the average order value
  of a batch for a customer, in the words of the specification: over the staged
  records of positive quantity that carry the provenance tag of that batch.\<close>

definition batch_average_unit_price :: "warehouse \<Rightarrow> int \<Rightarrow> string \<Rightarrow> rat option" where
  "batch_average_unit_price s batch_number stock_code =
     sql_avg (map (\<lambda>r. Some (UNIT_PRICE r))
       (filter (\<lambda>r. DATA_SOURCE r = data_source batch_number \<and> STOCK_CODE r = stock_code
                     \<and> QUANTITY r > 0) (staging s)))"

definition batch_average_order_value :: "warehouse \<Rightarrow> int \<Rightarrow> int \<Rightarrow> rat option" where
  "batch_average_order_value s batch_number customer_id =
     sql_avg (map (\<lambda>r. Some (TOTAL_AMOUNT r))
       (filter (\<lambda>r. DATA_SOURCE r = data_source batch_number \<and> CUSTOMER_ID r = Some customer_id
                     \<and> QUANTITY r > 0) (staging s)))"

subsection \<open>Concrete inputs\<close>

text \<open>A well-formed line of the extract, and an environment around a list of lines:
  the steps in \<open>failing\<close> raise, and the clock shows \<open>now\<close> throughout the run. In
  these environments a column is numeric when none of its cells is a text with a
  character other than a digit, and \<^verbatim>\<open>str\<close> of a number gives its digits as they
  stand, which is what Python gives for an integer column without leading zeros. The
  inputs of the runs that go through the duplicate check have a letter in every invoice
  number and stock code.\<close>

definition not_a_number :: "string option \<Rightarrow> bool" where
  "not_a_number c =
     (case c of None \<Rightarrow> False
      | Some v \<Rightarrow> v = [] \<or> filter (\<lambda>x. x \<notin> set ''0123456789'') v \<noteq> [])"

definition all_digits :: "string option list \<Rightarrow> bool" where
  "all_digits column = (filter not_a_number column = [])"

definition line :: "string \<Rightarrow> string \<Rightarrow> int \<Rightarrow> rat \<Rightarrow> int \<Rightarrow> raw_record" where
  "line invoice stock quantity price customer_id =
     \<lparr>raw_invoice_no = Some invoice, raw_stock_code = Some stock,
      raw_description = Some ''MUG'', raw_quantity = Parsed quantity,
      raw_invoice_date = Parsed 86400, raw_unit_price = Parsed price,
      raw_customer_id = Parsed customer_id, raw_country = Some ''UK''\<rparr>"

definition env_of :: "raw_record list \<Rightarrow> step list \<Rightarrow> timestamp \<Rightarrow> env" where
  "env_of rows failing now =
     \<lparr>csv_rows = rows, fails = (\<lambda>st. st \<in> set failing),
      error_text = (\<lambda>st. ''statement failed''), numeric_column = all_digits,
      str_number = (\<lambda>column v. v), clock = (\<lambda>st. now),
      year_of = (\<lambda>t. 1970), month_of = (\<lambda>t. 1), dayofweek_of = (\<lambda>t. 5),
      default_updated_at = Some now\<rparr>"

definition a_customer :: "rat \<Rightarrow> timestamp \<Rightarrow> customer" where
  "a_customer spent updated =
     \<lparr>C_COUNTRY = Some ''UK'', FIRST_PURCHASE_DATE = Some 86400,
      LAST_PURCHASE_DATE = Some 86400, C_TOTAL_ORDERS = 1, TOTAL_ITEMS_PURCHASED = 10,
      TOTAL_AMOUNT_SPENT = spent, AVERAGE_ORDER_VALUE = Some spent,
      CUSTOMER_SEGMENT = None, DAYS_SINCE_LAST_PURCHASE = None,
      C_UPDATED_AT = Some updated\<rparr>"




text \<open>An extract of 1001 lines: a sale of 5 of product \<^verbatim>\<open>A\<close> at price 2, 999
  lines with quantity 0, and a sale of 3 of \<^verbatim>\<open>A\<close> at price 4 on line 1001, all to
  customer 17850; the warehouse after batch 1 and after batch 2 of it; the two rows
  these runs stage.\<close>

definition two_batches_env :: env where
  "two_batches_env =
     env_of (line ''A536365'' ''A'' 5 2 17850 # replicate 999 (line ''A536366'' ''B'' 0 1 17850)
               @ [line ''A537000'' ''A'' 3 4 17850]) [] 100"

definition after_batch_1 :: warehouse where
  "after_batch_1 = snd (run_incremental_batch two_batches_env empty_warehouse (Some 1))"

definition after_batch_2 :: warehouse where
  "after_batch_2 = snd (run_incremental_batch two_batches_env after_batch_1 (Some 2))"

definition row_1 :: staged where
  "row_1 =
     to_staged two_batches_env (read_csv two_batches_env 1 1000) 1 1
       (line ''A536365'' ''A'' 5 2 17850)"

definition row_1001 :: staged where
  "row_1001 =
     to_staged two_batches_env (read_csv two_batches_env 1001 2000) 2 1001
       (line ''A537000'' ''A'' 3 4 17850)"


text \<open>Two lines, the first with a date that does not parse.\<close>

definition bad_date_env :: env where
  "bad_date_env =
     env_of [(line ''536365'' ''A'' 5 2 17850)\<lparr>raw_invoice_date := Unparseable\<rparr>,
             line ''536366'' ''B'' 3 4 17850] [] 100"

text \<open>The same extract at a later time, and the two batches of it loaded in the
  opposite order.\<close>

definition two_batches_later :: env where
  "two_batches_later = two_batches_env\<lparr>clock := (\<lambda>st. 200)\<rparr>"

definition batch_2_first :: warehouse where
  "batch_2_first = snd (run_incremental_batch two_batches_env empty_warehouse (Some 2))"

definition batch_1_after_2 :: warehouse where
  "batch_1_after_2 = snd (run_incremental_batch two_batches_env batch_2_first (Some 1))"

text \<open>An extract of 1001 lines whose line 1001 has quantity 0.\<close>

definition all_rejected_env :: env where
  "all_rejected_env =
     env_of (replicate 1000 (line ''A536365'' ''A'' 5 2 17850) @ [line ''A536366'' ''B'' 0 1 17850])
       [] 100"

section \<open>Verification\<close>

subsection \<open>Batch window resolution\<close>

lemma non_null_Some: "non_null (map (\<lambda>r. Some (f r)) xs) = map f xs"
  by (induction xs) (simp_all add: non_null_def)

lemma sql_max_Some:
  "sql_max (map (\<lambda>r. Some (f r)) xs) = (if xs = [] then None else Some (Max (f ` set xs)))"
proof (cases xs)
  case Nil
  then show ?thesis by (simp add: sql_max_def non_null_def)
next
  case (Cons y ys)
  have "sql_max (map (\<lambda>r. Some (f r)) xs) = Some (fold max (map f ys) (f y))"
    unfolding sql_max_def non_null_Some by (simp add: Cons)
  also have "fold max (map f ys) (f y) = Max (f ` set xs)"
    using Max.set_eq_fold [of "f y" "map f ys"] by (simp add: Cons)
  finally show ?thesis by (simp add: Cons)
qed

lemma last_row_value:
  "fst (get_last_processed_row e s) =
     (if fails e LastRowQuery \<or> staging s = [] then 0
      else Max (ROW_NUMBER_IN_FILE ` set (staging s)))"
  unfolding get_last_processed_row_def sql_max_Some by simp

lemma last_row_pure: "snd (get_last_processed_row e s) = s"
  by (simp add: get_last_processed_row_def split: option.split)

lemma resolve_explicit:
  "resolve_window e s (Some n) = ((n, (n - 1) * 1000 + 1, n * 1000), s)"
  by (simp add: resolve_window_def batch_size_def)

lemma resolve_auto:
  "resolve_window e s None =
     ((fst (get_last_processed_row e s) div 1000 + 1,
       (fst (get_last_processed_row e s) div 1000 + 1 - 1) * 1000 + 1,
       (fst (get_last_processed_row e s) div 1000 + 1) * 1000), s)"
  using last_row_pure [of e s]
  by (cases "get_last_processed_row e s") (simp add: resolve_window_def batch_size_def)

text \<open>
  Claim C4. With the batch size 1000, an explicit batch number \<open>n\<close> resolves to the
  window from row \<open>(n - 1) * 1000 + 1\<close> to row \<open>n * 1000\<close>. Without a batch number
  the number is \<open>M div 1000 + 1\<close> (floor division), where \<open>M\<close> is the largest
  \<^verbatim>\<open>ROW_NUMBER_IN_FILE\<close> of the staging table, and 0 when the table is empty or
  the query fails; an empty table gives batch 1 with rows 1 to 1000. In each case the
  warehouse comes back as it was.
\<close>

theorem batch_window_resolution:
  "resolve_window e s (Some n) = ((n, (n - 1) * 1000 + 1, n * 1000), s)
   \<and> resolve_window e s None =
       ((fst (get_last_processed_row e s) div 1000 + 1,
         (fst (get_last_processed_row e s) div 1000 + 1 - 1) * 1000 + 1,
         (fst (get_last_processed_row e s) div 1000 + 1) * 1000), s)
   \<and> get_last_processed_row e s =
       (if fails e LastRowQuery \<or> staging s = [] then 0
        else Max (ROW_NUMBER_IN_FILE ` set (staging s)), s)
   \<and> resolve_window e (s\<lparr>staging := []\<rparr>) None = ((1, 1, 1000), s\<lparr>staging := []\<rparr>)"
proof -
  have c: "fst (get_last_processed_row e (s\<lparr>staging := []\<rparr>)) = 0"
    by (simp add: last_row_value)
  have d: "get_last_processed_row e s =
       (if fails e LastRowQuery \<or> staging s = [] then 0
        else Max (ROW_NUMBER_IN_FILE ` set (staging s)), s)"
    using last_row_value [of e s] last_row_pure [of e s]
    by (cases "get_last_processed_row e s") simp
  show ?thesis
    using resolve_explicit [of e s n] resolve_auto [of e s]
      resolve_auto [of e "s\<lparr>staging := []\<rparr>"] c d
    by simp
qed

subsection \<open>Customer segmentation\<close>

lemma resegment_idem: "resegment now (resegment now c) = resegment now c"
  by (simp add: resegment_def updated_today_def)

lemma segment_update_idem: "segment_update e (segment_update e s) = segment_update e s"
  by (simp add: segment_update_def option.map_comp comp_def resegment_idem)

lemma resegment_segment:
  "updated_today now c \<Longrightarrow>
     CUSTOMER_SEGMENT (resegment now c) = Some (segment_of (TOTAL_AMOUNT_SPENT c))"
  by (simp add: resegment_def)

lemma resegment_spent: "TOTAL_AMOUNT_SPENT (resegment now c) = TOTAL_AMOUNT_SPENT c"
  by (simp add: resegment_def)

text \<open>
  Claim C5. The segment is a function of the cumulative spend alone: at least 10000
  gives VIP, from 5000 up to 10000 HIGH\_VALUE, from 1000 up to 5000 MEDIUM\_VALUE,
  above 0 and below 1000 LOW\_VALUE, and 0 or less NEW; the seven boundary values of the
  specification fall as it says. The segmentation statement gives every customer row
  it touches the segment of its spend, leaves the spend alone, and running it twice
  is the same as running it once.
\<close>

theorem segmentation_by_spend:
  "(10000 \<le> x \<longrightarrow> segment_of x = ''VIP'')
   \<and> (5000 \<le> x \<and> x < 10000 \<longrightarrow> segment_of x = ''HIGH_VALUE'')
   \<and> (1000 \<le> x \<and> x < 5000 \<longrightarrow> segment_of x = ''MEDIUM_VALUE'')
   \<and> (0 < x \<and> x < 1000 \<longrightarrow> segment_of x = ''LOW_VALUE'')
   \<and> (x \<le> 0 \<longrightarrow> segment_of x = ''NEW'')
   \<and> segment_of (99999 / 100) = ''LOW_VALUE''
   \<and> segment_of 1000 = ''MEDIUM_VALUE''
   \<and> segment_of (499999 / 100) = ''MEDIUM_VALUE''
   \<and> segment_of 5000 = ''HIGH_VALUE''
   \<and> segment_of (999999 / 100) = ''HIGH_VALUE''
   \<and> segment_of 10000 = ''VIP''
   \<and> segment_of 0 = ''NEW''
   \<and> (customers s k = Some c \<and> updated_today (clock e SegmentUpdate) c \<longrightarrow>
        map_option CUSTOMER_SEGMENT (customers (segment_update e s) k) =
          Some (Some (segment_of (TOTAL_AMOUNT_SPENT c)))
        \<and> map_option TOTAL_AMOUNT_SPENT (customers (segment_update e s) k) =
            Some (TOTAL_AMOUNT_SPENT c))
   \<and> segment_update e (segment_update e s) = segment_update e s"
proof -
  have thresholds:
    "(10000 \<le> x \<longrightarrow> segment_of x = ''VIP'')
     \<and> (5000 \<le> x \<and> x < 10000 \<longrightarrow> segment_of x = ''HIGH_VALUE'')
     \<and> (1000 \<le> x \<and> x < 5000 \<longrightarrow> segment_of x = ''MEDIUM_VALUE'')
     \<and> (0 < x \<and> x < 1000 \<longrightarrow> segment_of x = ''LOW_VALUE'')
     \<and> (x \<le> 0 \<longrightarrow> segment_of x = ''NEW'')"
    by (simp add: segment_of_def)
  have boundaries:
    "segment_of (99999 / 100) = ''LOW_VALUE'' \<and> segment_of 1000 = ''MEDIUM_VALUE''
     \<and> segment_of (499999 / 100) = ''MEDIUM_VALUE'' \<and> segment_of 5000 = ''HIGH_VALUE''
     \<and> segment_of (999999 / 100) = ''HIGH_VALUE'' \<and> segment_of 10000 = ''VIP''
     \<and> segment_of 0 = ''NEW''"
    by (simp add: segment_of_def)
  have pass:
    "customers s k = Some c \<and> updated_today (clock e SegmentUpdate) c \<longrightarrow>
       map_option CUSTOMER_SEGMENT (customers (segment_update e s) k) =
         Some (Some (segment_of (TOTAL_AMOUNT_SPENT c)))
       \<and> map_option TOTAL_AMOUNT_SPENT (customers (segment_update e s) k) =
           Some (TOTAL_AMOUNT_SPENT c)"
    by (simp add: segment_update_def resegment_segment resegment_spent)
  show ?thesis
    using thresholds boundaries pass segment_update_idem [of e s] by blast
qed

theorem segmentation_by_spend_witness:
  "segment_of 12000 = ''VIP'' \<and> segment_of 7000 = ''HIGH_VALUE''
   \<and> segment_of 2500 = ''MEDIUM_VALUE'' \<and> segment_of 10 = ''LOW_VALUE''
   \<and> segment_of (- 5) = ''NEW''
   \<and> updated_today (clock (env_of [] [] 200000) SegmentUpdate) (a_customer 2500 180000)
   \<and> map_option CUSTOMER_SEGMENT
        (customers
           (segment_update (env_of [] [] 200000)
              (empty_warehouse\<lparr>customers := [17850 \<mapsto> a_customer 2500 180000]\<rparr>))
           17850) = Some (Some ''MEDIUM_VALUE'')"
proof -
  have u: "updated_today (clock (env_of [] [] 200000) SegmentUpdate) (a_customer 2500 180000)"
    by (simp add: updated_today_def env_of_def a_customer_def current_date_def day_of_def)
  have k: "customers (empty_warehouse\<lparr>customers := [17850 \<mapsto> a_customer 2500 180000]\<rparr>) 17850
             = Some (a_customer 2500 180000)"
    by simp
  have m: "segment_of (TOTAL_AMOUNT_SPENT (a_customer 2500 180000)) = ''MEDIUM_VALUE''"
    using segmentation_by_spend [of 2500] by (simp add: a_customer_def)
  show ?thesis
    using segmentation_by_spend [of 12000] segmentation_by_spend [of 7000]
      segmentation_by_spend [of 2500] segmentation_by_spend [of 10]
      segmentation_by_spend [of "- 5"]
      segmentation_by_spend [of 0
        "empty_warehouse\<lparr>customers := [17850 \<mapsto> a_customer 2500 180000]\<rparr>" 17850
        "a_customer 2500 180000" "env_of [] [] 200000"]
      u k m
    by simp
qed

subsection \<open>Staging load, frame properties and the log of one attempt\<close>

lemma insert_rows_eq:
  "insert_rows e rs (c, s) =
     (c + int (length (filter (\<lambda>r. \<not> fails e (StagingInsert (ROW_NUMBER_IN_FILE r))) rs)),
      s\<lparr>staging := staging s @ filter (\<lambda>r. \<not> fails e (StagingInsert (ROW_NUMBER_IN_FILE r))) rs\<rparr>)"
  by (induction rs arbitrary: c s) simp_all

lemma candidates_Nil: "read_csv e st en = [] \<Longrightarrow> candidates e n st en = []"
  by (simp add: candidates_def add_metadata_def enumerate_eq_zip)

lemma load_eq:
  "load_batch_to_staging e s n st en =
     (int (length (written e s n st en)), s\<lparr>staging := staging s @ written e s n st en\<rparr>)"
  by (auto simp add: load_batch_to_staging_def load_body_def written_def deduplicated_def
      insert_rows_eq Let_def candidates_Nil)

lemma numeric_key_column_raises:
  assumes "staging s \<noteq> []" "\<not> fails e ReadCsv" "read_csv e st en \<noteq> []"
    and "Unparseable \<notin> set (map raw_invoice_date (read_csv e st en))"
    and "\<not> fails e ExistingKeysQuery"
    and "numeric_column e (map raw_invoice_no (read_csv e st en))
         \<or> numeric_column e (map raw_stock_code (read_csv e st en))"
  shows "load_body e s n st en = Inl (Raised KeyConcat)
         \<and> load_batch_to_staging e s n st en = (0, s)"
  using assms by (simp add: load_batch_to_staging_def load_body_def key_concat_raises_def)

lemma load_zero:
  assumes "fst (load_batch_to_staging e s n st en) = 0"
  shows "load_batch_to_staging e s n st en = (0, s)"
  using assms by (simp add: load_eq)


lemma dims_frame:
  "update_dimensions_incremental e s n = Inl (err, s') \<or> update_dimensions_incremental e s n = Inr s'
   \<Longrightarrow> staging s' = staging s \<and> exec_log s' = exec_log s \<and> transactions s' = transactions s"
  by (auto simp add: update_dimensions_incremental_def products_merge_def customers_merge_def
      segment_update_def countries_merge_def Let_def split: if_splits)

lemma fact_frame:
  "append_to_transactions_fact e s n = Inl (err, s') \<or> append_to_transactions_fact e s n = Inr s'
   \<Longrightarrow> staging s' = staging s \<and> exec_log s' = exec_log s"
  by (auto simp add: append_to_transactions_fact_def split: if_splits)

lemma running_entry_sel [simp]:
  "this_batch n (running_entry e n st en)"
  "STATUS (running_entry e n st en) = ''RUNNING''"
  "START_TIME (running_entry e n st en) = clock e LogStart"
  by (simp_all add: this_batch_def running_entry_def)

lemma latest_start_new:
  assumes "\<forall>l \<in> set ls. this_batch n l \<longrightarrow> START_TIME l < clock e LogStart"
  shows "latest_start n (ls @ [running_entry e n st en]) = Some (clock e LogStart)"
proof -
  let ?new = "running_entry e n st en"
  have "latest_start n (ls @ [?new]) =
          Some (Max (START_TIME ` set (filter (this_batch n) (ls @ [?new]))))"
    unfolding latest_start_def sql_max_Some by simp
  also have "Max (START_TIME ` set (filter (this_batch n) (ls @ [?new]))) = clock e LogStart"
  proof (rule Max_eqI)
    show "finite (START_TIME ` set (filter (this_batch n) (ls @ [?new])))" by simp
    show "clock e LogStart \<in> START_TIME ` set (filter (this_batch n) (ls @ [?new]))"
      by (simp add: image_iff)
    fix y assume "y \<in> START_TIME ` set (filter (this_batch n) (ls @ [?new]))"
    then show "y \<le> clock e LogStart"
      using assms by auto
  qed
  finally show ?thesis .
qed

lemma no_new_data_parses [simp]:
  "log_end_raises e (Some ''No new data to load'') = fails e LogEnd"
  "log_end_raises e None = fails e LogEnd"
  by (simp_all add: log_end_raises_def error_clause_def)

lemma log_batch_end_eq:
  "exec_log (log_batch_end e s n status rows msg) =
     (if log_end_raises e msg then exec_log s
      else map (\<lambda>l. if this_batch n l \<and> STATUS l = ''RUNNING''
                        \<and> Some (START_TIME l) = latest_start n (exec_log s)
                     then close_entry e status rows msg l else l) (exec_log s))"
  by (simp add: log_batch_end_def)

lemma close_running_entry:
  "close_entry e status rows msg (running_entry e n st en) = finished_entry e n st en status rows msg"
  by (simp add: close_entry_def finished_entry_def running_entry_def split: option.split)


lemma log_round:
  assumes "\<not> fails e LogStart" "\<not> log_end_raises e msg"
    and old: "\<forall>l \<in> set (exec_log s). this_batch n l \<longrightarrow> START_TIME l < clock e LogStart"
    and frame: "exec_log s' = exec_log (log_batch_start e s n st en)"
  shows "exec_log (log_batch_end e s' n status rows msg) =
           exec_log s @ [finished_entry e n st en status rows msg]"
proof -
  let ?new = "running_entry e n st en"
  have l: "exec_log s' = exec_log s @ [?new]"
    using assms by (simp add: log_batch_start_def)
  have latest: "latest_start n (exec_log s') = Some (clock e LogStart)"
    unfolding l using old by (rule latest_start_new)
  have olds: "map (\<lambda>l. if this_batch n l \<and> STATUS l = ''RUNNING''
                     \<and> START_TIME l = clock e LogStart then f l else l) (exec_log s)
              = exec_log s" for f
    using old by (intro map_idI) auto
  show ?thesis
    unfolding log_batch_end_eq latest
    using assms(2) by (simp add: l olds close_running_entry)
qed


lemma resolve_snd: "resolve_window e s bn = (w, s0) \<Longrightarrow> s0 = s"
  using last_row_pure [of e s]
  by (cases "get_last_processed_row e s")
     (auto simp add: resolve_window_def Let_def split: option.splits)

lemma load_frame:
  "load_batch_to_staging e s n st en = (c, s') \<Longrightarrow>
     exec_log s' = exec_log s \<and> products s' = products s \<and> customers s' = customers s
     \<and> countries s' = countries s \<and> transactions s' = transactions s"
  by (auto simp add: load_eq)

lemma run_zero:
  assumes "resolve_window e s bn = ((n, st, en), s0)"
    and "fst (load_batch_to_staging e (log_batch_start e s0 n st en) n st en) = 0"
  shows "run_incremental_batch e s bn =
           (False, log_batch_end e (log_batch_start e s n st en) n ''COMPLETED'' 0
                     (Some ''No new data to load''))"
proof -
  have s0: "s0 = s" using assms(1) by (rule resolve_snd)
  have "load_batch_to_staging e (log_batch_start e s n st en) n st en
          = (0, log_batch_start e s n st en)"
    using assms(2) unfolding s0 by (rule load_zero)
  then show ?thesis
    using assms(1) by (simp add: run_incremental_batch_def s0)
qed



subsection \<open>A load that writes nothing\<close>





subsection \<open>A load that raises\<close>



subsection \<open>A failure after the staging load\<close>






subsection \<open>A date that does not parse\<close>

text \<open>
  Claim C6 at an input where the code departs from it. The extract has two lines; the
  date of the first does not parse, the second is well-formed and passes the cleaning
  filters. The claim has the first line dropped and the second staged. The date
  conversion raises instead, the load returns 0, nothing is staged, and the attempt is
  logged COMPLETED.
\<close>

theorem unparseable_date_loses_the_batch:
  "map raw_invoice_no (filter nonzero_quantity (filter not_na (read_csv bad_date_env 1 1000)))
     = [Some ''536366'']
   \<and> map_sum id fst (load_body bad_date_env empty_warehouse 1 1 1000) = Inl (Raised ParseDates)
   \<and> fst (load_batch_to_staging bad_date_env empty_warehouse 1 1 1000) = 0
   \<and> staging (snd (run_incremental_batch bad_date_env empty_warehouse (Some 1))) = []
   \<and> map STATUS (exec_log (snd (run_incremental_batch bad_date_env empty_warehouse (Some 1))))
       = [''COMPLETED'']"
  by code_simp

subsection \<open>Two batches in sequence\<close>

lemma like_percent: "like ''%'' s"
  by (induction s) simp_all

lemma every_batch_tag_matches: "like ''%BATCH_%'' (data_source n)"
  by (simp add: data_source_def like_percent)

lemma other_tag_does_not_match: "like ''%BATCH_%'' ''CSV_FULL_LOAD'' = False"
  by simp

lemma untagged_rows_are_left_out:
  "batch_rows (s\<lparr>staging := [r\<lparr>DATA_SOURCE := ''CSV_FULL_LOAD''\<rparr>, r\<lparr>DATA_SOURCE := data_source n\<rparr>]\<rparr>)
     = [r\<lparr>DATA_SOURCE := data_source n\<rparr>]"
  using every_batch_tag_matches [of n] by (simp add: batch_rows_def)

lemma products_source_cong:
  "staging s = staging s' \<Longrightarrow> products_source s = products_source s'"
  by (rule ext) (simp add: products_source_def batch_rows_def)

lemma customers_source_cong:
  "staging s = staging s' \<Longrightarrow> customers_source s = customers_source s'"
  by (rule ext) (simp add: customers_source_def batch_rows_def)

lemma dims_products:
  assumes "update_dimensions_incremental e s n = Inr s'"
  shows "products s' = merge_into (products s) (products_source s)
           (product_matched (clock e ProductsMerge)) (product_not_matched (default_updated_at e))"
  using assms
  by (auto simp add: update_dimensions_incremental_def products_merge_def customers_merge_def
      segment_update_def countries_merge_def Let_def split: if_splits)

lemma dims_customers:
  assumes "update_dimensions_incremental e s n = Inr s'"
  shows "customers s' =
           (\<lambda>k. map_option (resegment (clock e SegmentUpdate))
                  (merge_into (customers s) (customers_source s)
                     (customer_matched (clock e CustomersMerge))
                     (customer_not_matched (default_updated_at e)) k))"
proof -
  have "staging (products_merge e s) = staging s" by (simp add: products_merge_def)
  then have "customers_source (products_merge e s) = customers_source s"
    by (rule customers_source_cong)
  moreover have "customers (products_merge e s) = customers s"
    by (simp add: products_merge_def)
  ultimately show ?thesis
    using assms
    by (auto simp add: update_dimensions_incremental_def customers_merge_def
        segment_update_def countries_merge_def Let_def split: if_splits)
qed

lemma fact_products:
  "append_to_transactions_fact e s n = Inr s' \<Longrightarrow>
     products s' = products s \<and> customers s' = customers s"
  by (auto simp add: append_to_transactions_fact_def split: if_splits)

lemma written_log_start [simp]:
  "written e (log_batch_start e' s n' st' en') n st en = written e s n st en"
  by (simp add: written_def load_body_def deduplicated_def log_batch_start_def Let_def)

lemma staging_log_start [simp]: "staging (log_batch_start e s n st en) = staging s"
  by (simp add: log_batch_start_def)

lemma products_log_start [simp]: "products (log_batch_start e s n st en) = products s"
  by (simp add: log_batch_start_def)

lemma customers_log_start [simp]: "customers (log_batch_start e s n st en) = customers s"
  by (simp add: log_batch_start_def)

lemma staging_log_end [simp]: "staging (log_batch_end e s n status rows msg) = staging s"
  by (simp add: log_batch_end_def)

lemma products_log_end [simp]: "products (log_batch_end e s n status rows msg) = products s"
  by (simp add: log_batch_end_def)

lemma customers_log_end [simp]: "customers (log_batch_end e s n status rows msg) = customers s"
  by (simp add: log_batch_end_def)

lemma run_success:
  assumes "resolve_window e s bn = ((n, st, en), s0)"
    and "written e s n st en \<noteq> []"
    and "\<not> fails e ProductsMerge" "\<not> fails e CustomersMerge" "\<not> fails e SegmentUpdate"
      "\<not> fails e CountriesMerge" "\<not> fails e FactInsert"
  shows "fst (run_incremental_batch e s bn)
         \<and> staging (snd (run_incremental_batch e s bn)) = staging s @ written e s n st en
         \<and> products (snd (run_incremental_batch e s bn)) =
             merge_into (products s) (products_source (snd (run_incremental_batch e s bn)))
               (product_matched (clock e ProductsMerge))
               (product_not_matched (default_updated_at e))
         \<and> customers (snd (run_incremental_batch e s bn)) =
             (\<lambda>k. map_option (resegment (clock e SegmentUpdate))
                    (merge_into (customers s)
                       (customers_source (snd (run_incremental_batch e s bn)))
                       (customer_matched (clock e CustomersMerge))
                       (customer_not_matched (default_updated_at e)) k))"
proof -
  have s0: "s0 = s" using assms(1) by (rule resolve_snd)
  let ?s1 = "log_batch_start e s n st en"
  let ?w = "written e s n st en"
  let ?s2 = "?s1\<lparr>staging := staging ?s1 @ written e ?s1 n st en\<rparr>"
  have ld: "load_batch_to_staging e ?s1 n st en = (int (length ?w), ?s2)"
    using load_eq [of e ?s1 n st en] by simp
  have nz: "int (length ?w) \<noteq> 0" using assms(2) by simp
  obtain s3 where d: "update_dimensions_incremental e ?s2 n = Inr s3"
    using assms(3-6) by (simp add: update_dimensions_incremental_def Let_def)
  obtain s4 where f: "append_to_transactions_fact e s3 n = Inr s4"
    using assms(7) by (simp add: append_to_transactions_fact_def)
  let ?s5 = "log_batch_end e s4 n ''COMPLETED'' (int (length ?w)) None"
  have r: "run_incremental_batch e s bn = (True, ?s5)"
    using assms(1) ld nz d f by (simp add: run_incremental_batch_def s0)
  have st3: "staging s3 = staging ?s2" using dims_frame [of e ?s2 n _ s3] d by blast
  have st4: "staging s4 = staging s3" using fact_frame [of e s3 n _ s4] f by blast
  have st: "staging ?s5 = staging s @ ?w"
    using st3 st4 by simp
  have p4: "products s4 = merge_into (products s) (products_source ?s2)
           (product_matched (clock e ProductsMerge)) (product_not_matched (default_updated_at e))"
    using dims_products [OF d] fact_products [OF f] by simp
  have c4: "customers s4 =
           (\<lambda>k. map_option (resegment (clock e SegmentUpdate))
                  (merge_into (customers s) (customers_source ?s2)
                     (customer_matched (clock e CustomersMerge))
                     (customer_not_matched (default_updated_at e)) k))"
    using dims_customers [OF d] fact_products [OF f] by simp
  have same: "staging ?s2 = staging ?s5"
    using st3 st4 by simp
  have src: "products_source ?s2 = products_source ?s5"
    using same by (rule products_source_cong)
  have csrc: "customers_source ?s2 = customers_source ?s5"
    using same by (rule customers_source_cong)
  have p5: "products ?s5 = merge_into (products s) (products_source ?s5)
           (product_matched (clock e ProductsMerge)) (product_not_matched (default_updated_at e))"
    using p4 src by simp
  have c5: "customers ?s5 =
           (\<lambda>k. map_option (resegment (clock e SegmentUpdate))
                  (merge_into (customers s) (customers_source ?s5)
                     (customer_matched (clock e CustomersMerge))
                     (customer_not_matched (default_updated_at e)) k))"
    using c4 csrc by simp
  show ?thesis
    unfolding r using st p5 c5 by simp
qed

lemma read_batch_1: "read_csv two_batches_env 1 1000 =
    line ''A536365'' ''A'' 5 2 17850 # replicate 999 (line ''A536366'' ''B'' 0 1 17850)"
  by (simp add: read_csv_def two_batches_env_def env_of_def)

lemma read_batch_2: "read_csv two_batches_env 1001 2000 = [line ''A537000'' ''A'' 3 4 17850]"
  by (simp add: read_csv_def two_batches_env_def env_of_def)

lemma two_batches_no_failure: "\<not> fails two_batches_env st"
  by (simp add: two_batches_env_def env_of_def)

lemma clock_two_batches: "clock two_batches_env st = 100" "default_updated_at two_batches_env = Some 100"
  by (simp_all add: two_batches_env_def env_of_def)

lemma numeric_two_batches: "numeric_column two_batches_env = all_digits"
  by (simp add: two_batches_env_def env_of_def)

text \<open>Every text column of the two frames has a cell that is not a number, so the
  library reads the columns as strings and the key concatenation does not raise.\<close>

lemma text_columns_1:
  "\<not> all_digits (map raw_invoice_no (read_csv two_batches_env 1 1000))"
  "\<not> all_digits (map raw_stock_code (read_csv two_batches_env 1 1000))"
  "\<not> all_digits (map raw_description (read_csv two_batches_env 1 1000))"
  "\<not> all_digits (map raw_country (read_csv two_batches_env 1 1000))"
  unfolding read_batch_1 by (simp_all add: all_digits_def not_a_number_def line_def)

lemma text_columns_2:
  "\<not> all_digits (map raw_invoice_no (read_csv two_batches_env 1001 2000))"
  "\<not> all_digits (map raw_stock_code (read_csv two_batches_env 1001 2000))"
  "\<not> all_digits (map raw_description (read_csv two_batches_env 1001 2000))"
  "\<not> all_digits (map raw_country (read_csv two_batches_env 1001 2000))"
  unfolding read_batch_2 by (simp_all add: all_digits_def not_a_number_def line_def)

lemma no_key_concat_error:
  "\<not> key_concat_raises two_batches_env (read_csv two_batches_env 1 1000)"
  "\<not> key_concat_raises two_batches_env (read_csv two_batches_env 1001 2000)"
  by (simp_all add: key_concat_raises_def numeric_two_batches text_columns_1 text_columns_2)

lemma str_int_values: "str_int 1 = ''1''" "str_int 2 = ''2''" "str_int 1001 = ''1001''"
  by code_simp+

lemma row_1_eq:
  "row_1 =
     \<lparr>INVOICE_NO = ''A536365'', STOCK_CODE = ''A'', DESCRIPTION = Some ''MUG'', QUANTITY = 5,
      INVOICE_DATE = 86400, UNIT_PRICE = 2, CUSTOMER_ID = Some 17850, COUNTRY = ''UK'',
      LOAD_TIMESTAMP = 100, FILE_NAME = ''online_retail_batch_1.csv'', ROW_NUMBER_IN_FILE = 1,
      DATA_SOURCE = ''CSV_BATCH_1'', HAS_MISSING_CUSTOMER_ID = False, IS_RETURN = False,
      TOTAL_AMOUNT = 10\<rparr>"
  by (simp add: row_1_def to_staged_def cell_text_def numeric_two_batches text_columns_1
      line_def clock_two_batches data_source_def str_int_values)

lemma row_1001_eq:
  "row_1001 =
     \<lparr>INVOICE_NO = ''A537000'', STOCK_CODE = ''A'', DESCRIPTION = Some ''MUG'', QUANTITY = 3,
      INVOICE_DATE = 86400, UNIT_PRICE = 4, CUSTOMER_ID = Some 17850, COUNTRY = ''UK'',
      LOAD_TIMESTAMP = 100, FILE_NAME = ''online_retail_batch_2.csv'', ROW_NUMBER_IN_FILE = 1001,
      DATA_SOURCE = ''CSV_BATCH_2'', HAS_MISSING_CUSTOMER_ID = False, IS_RETURN = False,
      TOTAL_AMOUNT = 12\<rparr>"
  by (simp add: row_1001_def to_staged_def cell_text_def numeric_two_batches text_columns_2
      line_def clock_two_batches data_source_def str_int_values)

lemma candidates_batch_1: "candidates two_batches_env 1 1 1000 = [row_1]"
  unfolding candidates_def row_1_def read_batch_1
  by (simp add: not_na_def nonzero_quantity_def line_def add_metadata_def enumerate_eq_zip)

lemma candidates_batch_2: "candidates two_batches_env 2 1001 2000 = [row_1001]"
  unfolding candidates_def row_1001_def read_batch_2
  by (simp add: not_na_def nonzero_quantity_def line_def add_metadata_def enumerate_eq_zip)

lemma dates_parse:
  "Unparseable \<notin> set (map raw_invoice_date (read_csv two_batches_env 1 1000))"
  "Unparseable \<notin> set (map raw_invoice_date (read_csv two_batches_env 1001 2000))"
  unfolding read_batch_1 read_batch_2 by (simp_all add: line_def)

lemma frames_not_empty:
  "read_csv two_batches_env 1 1000 \<noteq> []" "read_csv two_batches_env 1001 2000 \<noteq> []"
  unfolding read_batch_1 read_batch_2 by simp_all

lemma keys_differ: "transaction_key row_1001 \<noteq> transaction_key row_1"
  by (simp add: row_1_eq row_1001_eq transaction_key_def)

lemma load_body_batch_1:
  "staging s = [] \<Longrightarrow>
     load_body two_batches_env s 1 1 1000 = Inr (insert_rows two_batches_env [row_1] (0, s))"
  using dates_parse(1) frames_not_empty(1)
  by (simp add: load_body_def two_batches_no_failure candidates_batch_1)

lemma load_body_batch_2:
  "staging s = [row_1] \<Longrightarrow>
     load_body two_batches_env s 2 1001 2000
       = Inr (insert_rows two_batches_env [row_1001] (0, s))"
  using dates_parse(2) frames_not_empty(2) keys_differ
  by (simp add: load_body_def two_batches_no_failure candidates_batch_2 no_key_concat_error)

lemma written_batch_1: "staging s = [] \<Longrightarrow> written two_batches_env s 1 1 1000 = [row_1]"
  by (simp add: written_def load_body_batch_1 two_batches_no_failure deduplicated_def
      candidates_batch_1)

lemma written_batch_2: "staging s = [row_1] \<Longrightarrow> written two_batches_env s 2 1001 2000 = [row_1001]"
  using keys_differ
  by (simp add: written_def load_body_batch_2 two_batches_no_failure deduplicated_def
      candidates_batch_2)

lemma first_run:
  "fst (run_incremental_batch two_batches_env empty_warehouse (Some 1))
   \<and> staging after_batch_1 = [row_1]
   \<and> products after_batch_1 = merge_into Map.empty (products_source after_batch_1)
               (product_matched 100) (product_not_matched (Some 100))
   \<and> customers after_batch_1 =
       (\<lambda>k. map_option (resegment 100)
              (merge_into Map.empty (customers_source after_batch_1)
                 (customer_matched 100) (customer_not_matched (Some 100)) k))"
proof -
  have e: "staging empty_warehouse = []" "products empty_warehouse = Map.empty"
    "customers empty_warehouse = Map.empty"
    by (simp_all add: empty_warehouse_def)
  have w: "written two_batches_env empty_warehouse 1 ((1 - 1) * 1000 + 1) (1 * 1000) \<noteq> []"
    using written_batch_1 [OF e(1)] by simp
  show ?thesis
    using run_success [OF resolve_explicit w two_batches_no_failure two_batches_no_failure two_batches_no_failure two_batches_no_failure two_batches_no_failure]
      written_batch_1 [OF e(1)]
    by (simp add: after_batch_1_def [symmetric] e clock_two_batches)
qed

lemma second_run:
  "fst (run_incremental_batch two_batches_env after_batch_1 (Some 2))
   \<and> staging after_batch_2 = [row_1, row_1001]
   \<and> products after_batch_2 = merge_into (products after_batch_1) (products_source after_batch_2)
               (product_matched 100) (product_not_matched (Some 100))
   \<and> customers after_batch_2 =
       (\<lambda>k. map_option (resegment 100)
              (merge_into (customers after_batch_1) (customers_source after_batch_2)
                 (customer_matched 100) (customer_not_matched (Some 100)) k))"
proof -
  have e: "staging after_batch_1 = [row_1]" using first_run by simp
  have w: "written two_batches_env after_batch_1 2 ((2 - 1) * 1000 + 1) (2 * 1000) \<noteq> []"
    using written_batch_2 [OF e] by simp
  show ?thesis
    using run_success [OF resolve_explicit w two_batches_no_failure two_batches_no_failure two_batches_no_failure two_batches_no_failure two_batches_no_failure]
      written_batch_2 [OF e]
    by (simp add: after_batch_2_def [symmetric] e clock_two_batches)
qed

lemma tags_match:
  "like ''%BATCH_%'' (DATA_SOURCE row_1)" "like ''%BATCH_%'' (DATA_SOURCE row_1001)"
  by (simp_all add: row_1_eq row_1001_eq)

lemma source_after_1: "products_source after_batch_1 ''A'' = Some (product_group [row_1])"
proof -
  have "staging after_batch_1 = [row_1]" using first_run by simp
  moreover have "STOCK_CODE row_1 = ''A''" by (simp add: row_1_eq)
  ultimately show ?thesis
    using tags_match by (simp add: products_source_def batch_rows_def)
qed

lemma source_after_2: "products_source after_batch_2 ''A'' = Some (product_group [row_1, row_1001])"
proof -
  have "staging after_batch_2 = [row_1, row_1001]" using second_run by simp
  moreover have "STOCK_CODE row_1 = ''A''" "STOCK_CODE row_1001 = ''A''"
    by (simp_all add: row_1_eq row_1001_eq)
  ultimately show ?thesis
    using tags_match by (simp add: products_source_def batch_rows_def)
qed

lemma customer_source_after_1:
  "customers_source after_batch_1 17850 = Some (customer_group [row_1])"
proof -
  have "staging after_batch_1 = [row_1]" using first_run by simp
  moreover have "CUSTOMER_ID row_1 = Some 17850" "positive row_1"
    by (simp_all add: row_1_eq positive_def)
  ultimately show ?thesis
    using tags_match by (simp add: customers_source_def batch_rows_def)
qed

lemma customer_source_after_2:
  "customers_source after_batch_2 17850 = Some (customer_group [row_1, row_1001])"
proof -
  have "staging after_batch_2 = [row_1, row_1001]" using second_run by simp
  moreover have "CUSTOMER_ID row_1 = Some 17850" "positive row_1"
    "CUSTOMER_ID row_1001 = Some 17850" "positive row_1001"
    by (simp_all add: row_1_eq row_1001_eq positive_def)
  ultimately show ?thesis
    using tags_match by (simp add: customers_source_def batch_rows_def)
qed

lemma product_after_1:
  "products after_batch_1 ''A'' = Some (product_not_matched (Some 100) (product_group [row_1]))"
  using first_run source_after_1 by (simp add: merge_into_def)

lemma product_after_2:
  "products after_batch_2 ''A'' =
     Some (product_matched 100 (product_not_matched (Some 100) (product_group [row_1]))
             (product_group [row_1, row_1001]))"
  using second_run source_after_2 product_after_1 by (simp add: merge_into_def)

lemma customer_after_1:
  "customers after_batch_1 17850 =
     Some (resegment 100 (customer_not_matched (Some 100) (customer_group [row_1])))"
  using first_run customer_source_after_1 by (simp add: merge_into_def)

lemma customer_after_2:
  "customers after_batch_2 17850 =
     Some (resegment 100
             (customer_matched 100
                (resegment 100 (customer_not_matched (Some 100) (customer_group [row_1])))
                (customer_group [row_1, row_1001])))"
  using second_run customer_source_after_2 customer_after_1 by (simp add: merge_into_def)

lemma group_quantities: "NEW_QUANTITY_SOLD (product_group [row_1]) = 5"
  "NEW_QUANTITY_SOLD (product_group [row_1, row_1001]) = 8"
  by (simp_all add: product_group_def positive_def row_1_eq row_1001_eq)

lemma group_averages:
  "AVG_UNIT_PRICE (product_group [row_1]) = Some 2"
  "AVG_UNIT_PRICE (product_group [row_1, row_1001]) = Some 3"
  "PD_NEW_REVENUE (product_group [row_1]) = 10"
  "PD_NEW_REVENUE (product_group [row_1, row_1001]) = 22"
  "AVG_ORDER_VALUE (customer_group [row_1]) = Some 10"
  "AVG_ORDER_VALUE (customer_group [row_1, row_1001]) = Some 11"
  "NEW_AMOUNT_SPENT (customer_group [row_1]) = 10"
  "NEW_AMOUNT_SPENT (customer_group [row_1, row_1001]) = 22"
  by (simp_all add: product_group_def customer_group_def positive_def when_positive_def
      sql_avg_def non_null_def row_1_eq row_1001_eq)

lemma resegment_average: "AVERAGE_ORDER_VALUE (resegment now c) = AVERAGE_ORDER_VALUE c"
  by (simp add: resegment_def)

text \<open>
  Claim C1 at an input where the code departs from it. Batch 1 stages one sale of 5
  of product \<^verbatim>\<open>A\<close>, batch 2 one sale of 3; every invoice number and stock code has a
  letter, so the duplicate check of batch 2 builds its keys and removes nothing, and
  both runs return \<open>True\<close>. The positive-quantity deltas of the two batches are 5 and
  3, and the claim has \<^verbatim>\<open>TOTAL_QUANTITY_SOLD\<close> at 8 after both. The subquery of the
  MERGE selects \<^verbatim>\<open>DATA_SOURCE LIKE '%BATCH_%'\<close>, which every batch tag matches, so
  the second run adds 5 + 3 to the 5 of the first: 13.
\<close>

theorem second_batch_counts_first_batch_again:
  "fst (run_incremental_batch two_batches_env empty_warehouse (Some 1))
   \<and> map_sum id fst (load_body two_batches_env after_batch_1 2 1001 2000) = Inr 1
   \<and> fst (run_incremental_batch two_batches_env after_batch_1 (Some 2))
   \<and> map INVOICE_NO (staging after_batch_2) = [''A536365'', ''A537000'']
   \<and> map DATA_SOURCE (staging after_batch_2) = [''CSV_BATCH_1'', ''CSV_BATCH_2'']
   \<and> positive_quantity_delta after_batch_2 1 ''A'' = 5
   \<and> positive_quantity_delta after_batch_2 2 ''A'' = 3
   \<and> map_option TOTAL_QUANTITY_SOLD (products after_batch_1 ''A'') = Some 5
   \<and> map_option TOTAL_QUANTITY_SOLD (products after_batch_2 ''A'') = Some 13"
proof -
  have st1: "staging after_batch_1 = [row_1]" using first_run by simp
  have st: "staging after_batch_2 = [row_1, row_1001]" using second_run by simp
  have lb: "map_sum id fst (load_body two_batches_env after_batch_1 2 1001 2000) = Inr 1"
    using load_body_batch_2 [OF st1] by (simp add: two_batches_no_failure)
  have ds: "map INVOICE_NO [row_1, row_1001] = [''A536365'', ''A537000'']"
    "map DATA_SOURCE [row_1, row_1001] = [''CSV_BATCH_1'', ''CSV_BATCH_2'']"
    by (simp_all add: row_1_eq row_1001_eq)
  have d: "positive_quantity_delta after_batch_2 1 ''A'' = 5"
    "positive_quantity_delta after_batch_2 2 ''A'' = 3"
    by (simp_all add: positive_quantity_delta_def st row_1_eq row_1001_eq data_source_def
        str_int_values)
  have ok: "fst (run_incremental_batch two_batches_env empty_warehouse (Some 1))"
    "fst (run_incremental_batch two_batches_env after_batch_1 (Some 2))"
    using first_run second_run by simp_all
  have p: "map_option TOTAL_QUANTITY_SOLD (products after_batch_1 ''A'') = Some 5"
    "map_option TOTAL_QUANTITY_SOLD (products after_batch_2 ''A'') = Some 13"
    using group_quantities
    by (simp_all add: product_after_1 product_after_2 product_matched_def
        product_not_matched_def)
  show ?thesis
    using ok lb ds d p by (simp add: st)
qed

subsection \<open>The stored averages after two batches\<close>

text \<open>The WHEN MATCHED branch of the products and of the customers MERGE: the stored
  average becomes the mean of the stored average and the average of the source row, and
  the additive columns grow by the values of the source row.\<close>

lemma matched_row_rule:
  "AVERAGE_UNIT_PRICE (product_matched now t d)
     = mean_of_two (AVERAGE_UNIT_PRICE t) (AVG_UNIT_PRICE d)"
  "TOTAL_QUANTITY_SOLD (product_matched now t d) = TOTAL_QUANTITY_SOLD t + NEW_QUANTITY_SOLD d"
  "P_TOTAL_REVENUE (product_matched now t d) = P_TOTAL_REVENUE t + PD_NEW_REVENUE d"
  "AVERAGE_ORDER_VALUE (customer_matched now u g)
     = mean_of_two (AVERAGE_ORDER_VALUE u) (AVG_ORDER_VALUE g)"
  "C_TOTAL_ORDERS (customer_matched now u g) = C_TOTAL_ORDERS u + CD_NEW_ORDERS g"
  "TOTAL_ITEMS_PURCHASED (customer_matched now u g)
     = TOTAL_ITEMS_PURCHASED u + NEW_ITEMS_PURCHASED g"
  "TOTAL_AMOUNT_SPENT (customer_matched now u g) = TOTAL_AMOUNT_SPENT u + NEW_AMOUNT_SPENT g"
  by (simp_all add: product_matched_def customer_matched_def)

text \<open>
  Claim C8 at the same input, where the code departs from it. The sale of batch 1 has
  unit price 2 and amount 10, the sale of batch 2 unit price 4 and amount 12, both of
  product \<^verbatim>\<open>A\<close> to customer 17850. After batch 1 the stored average unit price is 2
  and the stored average order value 10. The average of the new batch is 4 (12 for the
  customer), and the claim has the stored averages at (2 + 4) / 2 = 3 and
  (10 + 12) / 2 = 11 after batch 2, and revenue and amount spent at 10 + 12 = 22. The
  subquery of each MERGE averages and sums the rows of both batches (3 and 22 for the
  product, 11 and 22 for the customer), so batch 2 stores (2 + 3) / 2 = 5/2 and
  (10 + 11) / 2 = 21/2, and 10 + 22 = 32 for revenue and amount spent.
\<close>

theorem second_batch_average_is_not_of_the_batch:
  "fst (run_incremental_batch two_batches_env empty_warehouse (Some 1))
   \<and> fst (run_incremental_batch two_batches_env after_batch_1 (Some 2))
   \<and> batch_average_unit_price after_batch_2 1 ''A'' = Some 2
   \<and> batch_average_unit_price after_batch_2 2 ''A'' = Some 4
   \<and> map_option AVERAGE_UNIT_PRICE (products after_batch_1 ''A'') = Some (Some 2)
   \<and> map_option AVG_UNIT_PRICE (products_source after_batch_2 ''A'') = Some (Some 3)
   \<and> map_option AVERAGE_UNIT_PRICE (products after_batch_2 ''A'') = Some (Some (5 / 2))
   \<and> map_option P_TOTAL_REVENUE (products after_batch_1 ''A'') = Some 10
   \<and> map_option P_TOTAL_REVENUE (products after_batch_2 ''A'') = Some 32
   \<and> batch_average_order_value after_batch_2 1 17850 = Some 10
   \<and> batch_average_order_value after_batch_2 2 17850 = Some 12
   \<and> map_option AVERAGE_ORDER_VALUE (customers after_batch_1 17850) = Some (Some 10)
   \<and> map_option AVG_ORDER_VALUE (customers_source after_batch_2 17850) = Some (Some 11)
   \<and> map_option AVERAGE_ORDER_VALUE (customers after_batch_2 17850) = Some (Some (21 / 2))
   \<and> map_option TOTAL_AMOUNT_SPENT (customers after_batch_1 17850) = Some 10
   \<and> map_option TOTAL_AMOUNT_SPENT (customers after_batch_2 17850) = Some 32"
proof -
  have st: "staging after_batch_2 = [row_1, row_1001]" using second_run by simp
  have ok: "fst (run_incremental_batch two_batches_env empty_warehouse (Some 1))"
    "fst (run_incremental_batch two_batches_env after_batch_1 (Some 2))"
    using first_run second_run by simp_all
  have b: "batch_average_unit_price after_batch_2 1 ''A'' = Some 2"
    "batch_average_unit_price after_batch_2 2 ''A'' = Some 4"
    "batch_average_order_value after_batch_2 1 17850 = Some 10"
    "batch_average_order_value after_batch_2 2 17850 = Some 12"
    by (simp_all add: batch_average_unit_price_def batch_average_order_value_def st
        row_1_eq row_1001_eq data_source_def str_int_values sql_avg_def non_null_def)
  have p: "map_option AVERAGE_UNIT_PRICE (products after_batch_1 ''A'') = Some (Some 2)"
    "map_option AVG_UNIT_PRICE (products_source after_batch_2 ''A'') = Some (Some 3)"
    "map_option AVERAGE_UNIT_PRICE (products after_batch_2 ''A'') = Some (Some (5 / 2))"
    "map_option P_TOTAL_REVENUE (products after_batch_1 ''A'') = Some 10"
    "map_option P_TOTAL_REVENUE (products after_batch_2 ''A'') = Some 32"
    using group_averages
    by (simp_all add: product_after_1 product_after_2 source_after_2 product_matched_def
        product_not_matched_def mean_of_two_def)
  have c: "map_option AVERAGE_ORDER_VALUE (customers after_batch_1 17850) = Some (Some 10)"
    "map_option AVG_ORDER_VALUE (customers_source after_batch_2 17850) = Some (Some 11)"
    "map_option AVERAGE_ORDER_VALUE (customers after_batch_2 17850) = Some (Some (21 / 2))"
    "map_option TOTAL_AMOUNT_SPENT (customers after_batch_1 17850) = Some 10"
    "map_option TOTAL_AMOUNT_SPENT (customers after_batch_2 17850) = Some 32"
    using group_averages
    by (simp_all add: customer_after_1 customer_after_2 customer_source_after_2
        resegment_average resegment_spent customer_matched_def customer_not_matched_def
        mean_of_two_def)
  show ?thesis
    using ok b p c by simp
qed

subsection \<open>Row ordinals and keys\<close>

lemma digit_char_inj: "a < 10 \<Longrightarrow> b < 10 \<Longrightarrow> digit_char a = digit_char b \<Longrightarrow> a = b"
proof -
  assume "a < 10" "b < 10" and eq: "digit_char a = digit_char b"
  then have "a = 0 \<or> a = 1 \<or> a = 2 \<or> a = 3 \<or> a = 4 \<or> a = 5 \<or> a = 6 \<or> a = 7 \<or> a = 8 \<or> a = 9"
    and "b = 0 \<or> b = 1 \<or> b = 2 \<or> b = 3 \<or> b = 4 \<or> b = 5 \<or> b = 6 \<or> b = 7 \<or> b = 8 \<or> b = 9"
    by arith+
  then show "a = b"
    using eq by (elim disjE) (simp_all add: digit_char_def)
qed

lemma digit_char_plain: "digit_char d \<noteq> CHR ''_''" "digit_char d \<noteq> CHR ''-''"
  by (simp_all add: digit_char_def)

lemma str_nat_small: "n < 10 \<Longrightarrow> str_nat n = [digit_char n]"
  by (simp add: str_nat.simps)

lemma str_nat_big:
  "\<not> n < 10 \<Longrightarrow> str_nat n = str_nat (n div 10) @ [digit_char (n mod 10)]"
  by (subst str_nat.simps) simp

lemma str_nat_nonempty: "str_nat n \<noteq> []"
  by (cases "n < 10") (simp_all add: str_nat_small str_nat_big)

lemma str_nat_plain: "CHR ''_'' \<notin> set (str_nat n) \<and> CHR ''-'' \<notin> set (str_nat n)"
proof (induction n rule: str_nat.induct)
  case (1 n)
  show ?case
  proof (cases "n < 10")
    case True
    then show ?thesis using digit_char_plain [of n] by (auto simp add: str_nat_small)
  next
    case False
    then show ?thesis
      using 1 digit_char_plain [of "n mod 10"] by (auto simp add: str_nat_big)
  qed
qed

lemma str_nat_inj: "str_nat n = str_nat m \<Longrightarrow> n = m"
proof (induction n arbitrary: m rule: str_nat.induct)
  case (1 n)
  show ?case
  proof (cases "n < 10")
    case small: True
    show ?thesis
    proof (cases "m < 10")
      case True
      then show ?thesis using small "1.prems" digit_char_inj by (simp add: str_nat_small)
    next
      case False
      then show ?thesis
        using small "1.prems" str_nat_nonempty [of "m div 10"]
        by (simp add: str_nat_small str_nat_big)
    qed
  next
    case big: False
    show ?thesis
    proof (cases "m < 10")
      case True
      then show ?thesis
        using big "1.prems" str_nat_nonempty [of "n div 10"]
        by (simp add: str_nat_small str_nat_big)
    next
      case False
      then have "str_nat (n div 10) = str_nat (m div 10)"
        and d: "digit_char (n mod 10) = digit_char (m mod 10)"
        using big "1.prems" by (simp_all add: str_nat_big)
      then have "n div 10 = m div 10" using "1.IH" big by simp
      moreover have "n mod 10 = m mod 10" using d digit_char_inj by simp
      ultimately show ?thesis by (metis div_mult_mod_eq)
    qed
  qed
qed

lemma str_int_inj: "str_int i = str_int j \<Longrightarrow> i = j"
proof -
  assume a: "str_int i = str_int j"
  show ?thesis
  proof (cases "i < 0"; cases "j < 0")
    assume "i < 0" "j < 0"
    then have "nat (- i) = nat (- j)" using a str_nat_inj by (simp add: str_int_def)
    then show ?thesis using \<open>i < 0\<close> \<open>j < 0\<close> by simp
  next
    assume "i < 0" "\<not> j < 0"
    moreover have "set (str_int i) = set (str_int j)" using a by simp
    ultimately show ?thesis using str_nat_plain [of "nat j"] by (auto simp add: str_int_def)
  next
    assume "\<not> i < 0" "j < 0"
    moreover have "set (str_int i) = set (str_int j)" using a by simp
    ultimately show ?thesis using str_nat_plain [of "nat i"] by (auto simp add: str_int_def)
  next
    assume "\<not> i < 0" "\<not> j < 0"
    then have "nat i = nat j" using a str_nat_inj by (simp add: str_int_def)
    then show ?thesis using \<open>\<not> i < 0\<close> \<open>\<not> j < 0\<close> by simp
  qed
qed

lemma str_int_plain: "CHR ''_'' \<notin> set (str_int i)"
  using str_nat_plain by (simp add: str_int_def)

lemma key_ordinal:
  assumes "transaction_key r = transaction_key r'"
  shows "ROW_NUMBER_IN_FILE r = ROW_NUMBER_IN_FILE r'"
proof -
  have t: "takeWhile (\<lambda>c. c \<noteq> CHR ''_'') (rev (transaction_key x))
             = rev (str_int (ROW_NUMBER_IN_FILE x))" for x
  proof -
    have "\<forall>c \<in> set (rev (str_int (ROW_NUMBER_IN_FILE x))). c \<noteq> CHR ''_''"
      using str_int_plain [of "ROW_NUMBER_IN_FILE x"] by auto
    then have "takeWhile (\<lambda>c. c \<noteq> CHR ''_'') (rev (str_int (ROW_NUMBER_IN_FILE x)) @ CHR ''_'' # l)
                 = rev (str_int (ROW_NUMBER_IN_FILE x))" for l
      by (simp add: takeWhile_tail)
    then show ?thesis by (simp add: transaction_key_def)
  qed
  have "rev (str_int (ROW_NUMBER_IN_FILE r)) = rev (str_int (ROW_NUMBER_IN_FILE r'))"
    using t [of r] t [of r'] assms by simp
  then show ?thesis using str_int_inj by simp
qed

lemma resolve_bounds:
  "resolve_window e s bn = ((n, st, en), s0) \<Longrightarrow> st = (n - 1) * 1000 + 1 \<and> en = n * 1000"
  by (cases bn) (auto simp add: resolve_explicit resolve_auto)

lemma row_number_to_staged [simp]: "ROW_NUMBER_IN_FILE (to_staged e frame n k r) = k"
  by (simp add: to_staged_def Let_def)

lemma candidates_ordinals:
  "map ROW_NUMBER_IN_FILE (candidates e n st en) =
     map (\<lambda>k. st + int k)
       [0 ..< length (filter nonzero_quantity (filter not_na (read_csv e st en)))]"
proof -
  have "map ROW_NUMBER_IN_FILE (add_metadata e frame n st df)
          = map (\<lambda>k. st + int k) [0 ..< length df]" for frame df
  proof -
    have "map ROW_NUMBER_IN_FILE (add_metadata e frame n st df)
            = map (\<lambda>x. st + int (fst x)) (List.enumerate 0 df)"
      by (simp add: add_metadata_def case_prod_unfold comp_def)
    also have "\<dots> = map (\<lambda>k. st + int k) (map fst (List.enumerate 0 df))"
      by (simp only: map_map comp_def)
    also have "map fst (List.enumerate 0 df) = [0 ..< length df]"
      by simp
    finally show ?thesis .
  qed
  then show ?thesis by (simp add: candidates_def)
qed

lemma candidates_distinct_keys: "distinct (map transaction_key (candidates e n st en))"
proof -
  have "distinct (map ROW_NUMBER_IN_FILE (candidates e n st en))"
    unfolding candidates_ordinals by (simp add: distinct_map inj_on_def)
  then have d: "distinct (candidates e n st en)"
    and i: "inj_on ROW_NUMBER_IN_FILE (set (candidates e n st en))"
    by (simp_all add: distinct_map)
  have "inj_on transaction_key (set (candidates e n st en))"
    using i key_ordinal unfolding inj_on_def by blast
  then show ?thesis using d by (simp add: distinct_map)
qed

lemma written_subset: "set (written e s n st en) \<subseteq> set (candidates e n st en)"
  by (auto simp add: written_def deduplicated_def split: sum.splits if_splits)

lemma written_distinct_keys: "distinct (map transaction_key (written e s n st en))"
proof -
  have "\<exists>P. written e s n st en = filter P (candidates e n st en)"
  proof (cases "load_body e s n st en")
    case (Inl a)
    then have "written e s n st en = filter (\<lambda>r. False) (candidates e n st en)"
      by (simp add: written_def)
    then show ?thesis by blast
  next
    case (Inr b)
    then show ?thesis
      by (cases "staging s = []") (auto simp add: written_def deduplicated_def)
  qed
  then show ?thesis
    using candidates_distinct_keys [of e n st en] by (auto simp add: distinct_map_filter)
qed

lemma written_new_keys:
  "r \<in> set (written e s n st en) \<Longrightarrow> transaction_key r \<notin> transaction_key ` set (staging s)"
  by (cases "staging s = []")
     (auto simp add: written_def deduplicated_def split: sum.splits)

lemma written_fully_loaded:
  assumes "\<forall>c \<in> set (candidates e n st en). transaction_key c \<in> transaction_key ` set (staging s)"
  shows "written e s n st en = []"
proof -
  have "r \<notin> set (written e s n st en)" for r
    using assms written_subset [of e s n st en] written_new_keys [of r e s n st en] by blast
  then show ?thesis by (cases "written e s n st en") auto
qed

lemma run_staging:
  assumes "resolve_window e s bn = ((n, st, en), s0)"
  shows "staging (snd (run_incremental_batch e s bn)) = staging s @ written e s n st en"
proof -
  have s0: "s0 = s" using assms by (rule resolve_snd)
  let ?s1 = "log_batch_start e s n st en"
  let ?w = "written e s n st en"
  let ?s2 = "?s1\<lparr>staging := staging ?s1 @ written e ?s1 n st en\<rparr>"
  have ld: "load_batch_to_staging e ?s1 n st en = (int (length ?w), ?s2)"
    using load_eq [of e ?s1 n st en] by simp
  have d: "staging s' = staging ?s2"
    if "update_dimensions_incremental e ?s2 n = Inl (err, s')
        \<or> update_dimensions_incremental e ?s2 n = Inr s'" for err s'
    using dims_frame [OF that] by simp
  have f: "staging s'' = staging s'"
    if "append_to_transactions_fact e s' n = Inl (err, s'')
        \<or> append_to_transactions_fact e s' n = Inr s''" for err s' s''
    using fact_frame [OF that] by simp
  have st2: "staging ?s2 = staging s @ ?w" by simp
  have le: "staging (log_batch_end e s' n status rows msg) = staging s'" for s' status rows msg
    by (simp add: log_batch_end_def)
  show ?thesis
  proof (cases "int (length ?w) = 0")
    case True
    then show ?thesis
      using assms ld by (simp add: run_incremental_batch_def s0 le)
  next
    case nz: False
    show ?thesis
    proof (cases "update_dimensions_incremental e ?s2 n")
      case (Inl p)
      obtain err s3 where p: "p = (err, s3)" by (cases p)
      have "staging s3 = staging ?s2" using d [of err s3] Inl p by simp
      then show ?thesis
        using assms ld nz Inl p st2 by (simp add: run_incremental_batch_def s0 le)
    next
      case (Inr s3)
      have s3: "staging s3 = staging ?s2" using d [of _ s3] Inr by simp
      show ?thesis
      proof (cases "append_to_transactions_fact e s3 n")
        case (Inl p)
        obtain err s4 where p: "p = (err, s4)" by (cases p)
        have "staging s4 = staging s3" using f [of s3 err s4] Inl p by simp
        then show ?thesis
          using assms ld nz Inr Inl p st2 s3 by (simp add: run_incremental_batch_def s0 le)
      next
        case (Inr s4)
        have "staging s4 = staging s3" using f [of s3 _ s4] Inr by simp
        then show ?thesis
          using assms ld nz \<open>update_dimensions_incremental e ?s2 n = Inr s3\<close> Inr st2 s3
          by (simp add: run_incremental_batch_def s0 le)
      qed
    qed
  qed
qed

lemma run_log_start_times:
  assumes "resolve_window e s bn = ((n, st, en), s0)"
  shows "map START_TIME (exec_log (snd (run_incremental_batch e s bn)))
           = map START_TIME (exec_log (log_batch_start e s n st en))"
proof -
  have s0: "s0 = s" using assms by (rule resolve_snd)
  let ?s1 = "log_batch_start e s n st en"
  let ?w = "written e s n st en"
  let ?s2 = "?s1\<lparr>staging := staging ?s1 @ written e ?s1 n st en\<rparr>"
  have ld: "load_batch_to_staging e ?s1 n st en = (int (length ?w), ?s2)"
    using load_eq [of e ?s1 n st en] by simp
  have d: "exec_log s' = exec_log ?s1"
    if "update_dimensions_incremental e ?s2 n = Inl (err, s')
        \<or> update_dimensions_incremental e ?s2 n = Inr s'" for err s'
    using dims_frame [OF that] by simp
  have f: "exec_log s'' = exec_log s'"
    if "append_to_transactions_fact e s' n = Inl (err, s'')
        \<or> append_to_transactions_fact e s' n = Inr s''" for err s' s''
    using fact_frame [OF that] by simp
  have le: "map START_TIME (exec_log (log_batch_end e s' n status rows msg))
              = map START_TIME (exec_log s')" for s' status rows msg
    by (simp add: log_batch_end_eq close_entry_def comp_def if_distrib cong: if_cong)
  show ?thesis
  proof (cases "int (length ?w) = 0")
    case True
    then show ?thesis
      using assms ld by (simp add: run_incremental_batch_def s0 le)
  next
    case nz: False
    show ?thesis
    proof (cases "update_dimensions_incremental e ?s2 n")
      case (Inl p)
      obtain err s3 where p: "p = (err, s3)" by (cases p)
      have "exec_log s3 = exec_log ?s1" using d [of err s3] Inl p by simp
      then show ?thesis
        using assms ld nz Inl p by (simp add: run_incremental_batch_def s0 le)
    next
      case (Inr s3)
      have s3: "exec_log s3 = exec_log ?s1" using d [of _ s3] Inr by simp
      show ?thesis
      proof (cases "append_to_transactions_fact e s3 n")
        case (Inl p)
        obtain err s4 where p: "p = (err, s4)" by (cases p)
        have "exec_log s4 = exec_log s3" using f [of s3 err s4] Inl p by simp
        then show ?thesis
          using assms ld nz Inr Inl p s3 by (simp add: run_incremental_batch_def s0 le)
      next
        case (Inr s4)
        have "exec_log s4 = exec_log s3" using f [of s3 _ s4] Inr by simp
        then show ?thesis
          using assms ld nz \<open>update_dimensions_incremental e ?s2 n = Inr s3\<close> Inr s3
          by (simp add: run_incremental_batch_def s0 le)
      qed
    qed
  qed
qed

lemma read_batch_1_later: "read_csv two_batches_later 1 1000 = read_csv two_batches_env 1 1000"
  by (simp add: read_csv_def two_batches_later_def)

lemma candidate_keys_later: "map transaction_key (candidates two_batches_later 1 1 1000) = [transaction_key row_1]"
proof -
  have n: "numeric_column two_batches_later = all_digits"
    by (simp add: two_batches_later_def numeric_two_batches)
  have "candidates two_batches_later 1 1 1000 =
          [to_staged two_batches_later (read_csv two_batches_env 1 1000) 1 1
             (line ''A536365'' ''A'' 5 2 17850)]"
    unfolding candidates_def read_batch_1_later
    unfolding read_batch_1
    by (simp add: not_na_def nonzero_quantity_def line_def add_metadata_def enumerate_eq_zip)
  then show ?thesis
    by (simp add: row_1_eq transaction_key_def to_staged_def cell_text_def n text_columns_1
        line_def)
qed

lemma rejected_in_batch_1:
  "length (filter nonzero_quantity (filter not_na (read_csv two_batches_env 1 1000)))
     < length (read_csv two_batches_env 1 1000)"
  unfolding read_batch_1 by (simp add: not_na_def nonzero_quantity_def line_def)

subsection \<open>Running a batch that is already loaded\<close>

text \<open>
  Claim C3. The key of a staged row is its invoice number, stock code and row ordinal
  joined by underscores. A run writes only candidates whose key is not among the keys
  already staged, so a staging table without two rows of the same key stays so. When
  every candidate of the batch has its key in the staging table (the batch is fully
  loaded), the load returns 0, the staging table stays as it is, and the attempt is
  logged COMPLETED with \<^verbatim>\<open>ROWS_INSERTED = 0\<close>.
\<close>

theorem rerun_stages_nothing_and_keys_stay_unique:
  assumes "resolve_window e s bn = ((n, st, en), s0)"
  shows "((\<forall>c \<in> set (candidates e n st en).
             transaction_key c \<in> transaction_key ` set (staging s)) \<longrightarrow>
            load_batch_to_staging e (log_batch_start e s n st en) n st en
              = (0, log_batch_start e s n st en)
            \<and> run_incremental_batch e s bn =
                (False, log_batch_end e (log_batch_start e s n st en) n ''COMPLETED'' 0
                          (Some ''No new data to load''))
            \<and> staging (snd (run_incremental_batch e s bn)) = staging s
            \<and> (\<not> fails e LogStart \<and> \<not> fails e LogEnd
                 \<and> (\<forall>l \<in> set (exec_log s). this_batch n l \<longrightarrow> START_TIME l < clock e LogStart)
               \<longrightarrow> exec_log (snd (run_incremental_batch e s bn)) =
                     exec_log s @ [finished_entry e n st en ''COMPLETED'' 0
                                     (Some ''No new data to load'')]))
         \<and> staging (snd (run_incremental_batch e s bn)) = staging s @ written e s n st en
         \<and> (\<forall>r \<in> set (written e s n st en).
               transaction_key r =
                 INVOICE_NO r @ ''_'' @ STOCK_CODE r @ ''_'' @ str_int (ROW_NUMBER_IN_FILE r)
               \<and> transaction_key r \<notin> transaction_key ` set (staging s))
         \<and> (distinct (map transaction_key (staging s)) \<longrightarrow>
               distinct (map transaction_key (staging (snd (run_incremental_batch e s bn)))))"
proof -
  have s0: "s0 = s" using assms by (rule resolve_snd)
  note rs = run_staging [OF assms]
  have full: "load_batch_to_staging e (log_batch_start e s n st en) n st en
              = (0, log_batch_start e s n st en)
            \<and> run_incremental_batch e s bn =
                (False, log_batch_end e (log_batch_start e s n st en) n ''COMPLETED'' 0
                          (Some ''No new data to load''))
            \<and> staging (snd (run_incremental_batch e s bn)) = staging s
            \<and> (\<not> fails e LogStart \<and> \<not> fails e LogEnd
                 \<and> (\<forall>l \<in> set (exec_log s). this_batch n l \<longrightarrow> START_TIME l < clock e LogStart)
               \<longrightarrow> exec_log (snd (run_incremental_batch e s bn)) =
                     exec_log s @ [finished_entry e n st en ''COMPLETED'' 0
                                     (Some ''No new data to load'')])"
    if a: "\<forall>c \<in> set (candidates e n st en).
             transaction_key c \<in> transaction_key ` set (staging s)"
  proof -
    have w: "written e s n st en = []" using a by (rule written_fully_loaded)
    have z: "fst (load_batch_to_staging e (log_batch_start e s0 n st en) n st en) = 0"
      unfolding s0 using load_eq [of e "log_batch_start e s n st en" n st en] w by simp
    then have ld: "load_batch_to_staging e (log_batch_start e s n st en) n st en
              = (0, log_batch_start e s n st en)"
      unfolding s0 by (rule load_zero)
    note r = run_zero [OF assms z]
    have l: "exec_log (log_batch_end e (log_batch_start e s n st en) n ''COMPLETED'' 0
                     (Some ''No new data to load'')) =
             exec_log s @ [finished_entry e n st en ''COMPLETED'' 0 (Some ''No new data to load'')]"
      if "\<not> fails e LogStart" "\<not> fails e LogEnd"
        "\<forall>l \<in> set (exec_log s). this_batch n l \<longrightarrow> START_TIME l < clock e LogStart"
      using that by (intro log_round) simp_all
    show ?thesis
      using ld l rs w by (simp add: r)
  qed
  have new: "\<forall>r \<in> set (written e s n st en).
               transaction_key r =
                 INVOICE_NO r @ ''_'' @ STOCK_CODE r @ ''_'' @ str_int (ROW_NUMBER_IN_FILE r)
               \<and> transaction_key r \<notin> transaction_key ` set (staging s)"
    using written_new_keys [of _ e s n st en] by (auto simp add: transaction_key_def)
  have inv: "distinct (map transaction_key (staging (snd (run_incremental_batch e s bn))))"
    if "distinct (map transaction_key (staging s))"
  proof -
    have "set (map transaction_key (staging s)) \<inter> set (map transaction_key (written e s n st en)) = {}"
      using written_new_keys [of _ e s n st en] by (auto simp add: image_iff) metis
    then show ?thesis
      unfolding rs using that written_distinct_keys [of e s n st en] by simp
  qed
  show ?thesis
    using full rs new inv by blast
qed

theorem rerun_stages_nothing_and_keys_stay_unique_witness:
  "resolve_window two_batches_later after_batch_1 (Some 1) = ((1, 1, 1000), after_batch_1)
   \<and> map transaction_key (candidates two_batches_later 1 1 1000)
       = map transaction_key (staging after_batch_1)
   \<and> distinct (map transaction_key (staging after_batch_1))
   \<and> fst (load_batch_to_staging two_batches_later
            (log_batch_start two_batches_later after_batch_1 1 1 1000) 1 1 1000) = 0
   \<and> staging (snd (run_incremental_batch two_batches_later after_batch_1 (Some 1))) = [row_1]
   \<and> distinct (map transaction_key
        (staging (snd (run_incremental_batch two_batches_later after_batch_1 (Some 1)))))
   \<and> exec_log (snd (run_incremental_batch two_batches_later after_batch_1 (Some 1))) =
       exec_log after_batch_1 @
         [finished_entry two_batches_later 1 1 1000 ''COMPLETED'' 0 (Some ''No new data to load'')]"
proof -
  let ?e = two_batches_later
  let ?s = after_batch_1
  have a: "resolve_window ?e ?s (Some 1) = ((1, 1, 1000), ?s)"
    by (simp add: resolve_explicit)
  have st: "staging ?s = [row_1]" using first_run by simp
  have full: "\<forall>c \<in> set (candidates ?e 1 1 1000).
                 transaction_key c \<in> transaction_key ` set (staging ?s)"
  proof
    fix c assume "c \<in> set (candidates ?e 1 1 1000)"
    then have "transaction_key c \<in> set (map transaction_key (candidates ?e 1 1 1000))"
      by simp
    then show "transaction_key c \<in> transaction_key ` set (staging ?s)"
      unfolding candidate_keys_later st by simp
  qed
  have d: "distinct (map transaction_key (staging ?s))" by (simp add: st)
  have fl: "\<not> fails ?e LogStart \<and> \<not> fails ?e LogEnd"
    by (simp add: two_batches_later_def two_batches_env_def env_of_def)
  have "map START_TIME (exec_log ?s) = [100]"
    unfolding after_batch_1_def run_log_start_times [OF resolve_explicit]
    by (simp add: log_batch_start_def empty_warehouse_def clock_two_batches two_batches_no_failure running_entry_def)
  then have "\<forall>t \<in> set (map START_TIME (exec_log ?s)). t < 200" by simp
  then have old: "\<forall>l \<in> set (exec_log ?s). this_batch 1 l \<longrightarrow> START_TIME l < clock ?e LogStart"
    by (simp add: two_batches_later_def)
  note t = rerun_stages_nothing_and_keys_stay_unique [OF a]
  have z: "load_batch_to_staging ?e (log_batch_start ?e ?s 1 1 1000) 1 1 1000
             = (0, log_batch_start ?e ?s 1 1 1000)"
    and same: "staging (snd (run_incremental_batch ?e ?s (Some 1))) = staging ?s"
    using t full by blast+
  have lg: "exec_log (snd (run_incremental_batch ?e ?s (Some 1))) =
       exec_log ?s @ [finished_entry ?e 1 1 1000 ''COMPLETED'' 0 (Some ''No new data to load'')]"
    using t full fl old by blast
  have inv: "distinct (map transaction_key (staging (snd (run_incremental_batch ?e ?s (Some 1)))))"
    using t d by blast
  show ?thesis
    using a candidate_keys_later d z same lg inv by (simp add: st)
qed

subsection \<open>Rejected rows and the next batch number\<close>

lemma written_ordinals:
  assumes "r \<in> set (written e s n st en)"
  shows "st \<le> ROW_NUMBER_IN_FILE r
         \<and> ROW_NUMBER_IN_FILE r
             < st + int (length (filter nonzero_quantity (filter not_na (read_csv e st en))))"
proof -
  have "r \<in> set (candidates e n st en)" using assms written_subset by blast
  then have "ROW_NUMBER_IN_FILE r \<in> set (map ROW_NUMBER_IN_FILE (candidates e n st en))"
    by simp
  then show ?thesis unfolding candidates_ordinals by auto
qed

lemma window_div:
  fixes x n :: int
  assumes "(n - 1) * 1000 \<le> x" "x < n * 1000"
  shows "x div 1000 = n - 1"
proof (rule int_div_pos_eq [where r = "x - (n - 1) * 1000"])
  show "x = 1000 * (n - 1) + (x - (n - 1) * 1000)" by simp
  show "0 \<le> x - (n - 1) * 1000" using assms by simp
  show "x - (n - 1) * 1000 < 1000" using assms by simp
qed

lemma read_csv_length: "int (length (read_csv e st en)) \<le> max 0 (en - st + 1)"
  by (simp add: read_csv_def)

lemma derived_window:
  assumes "resolve_window e s None = ((n, st, en), s0)"
  shows "(n - 1) * 1000 \<le> fst (get_last_processed_row e s)
         \<and> fst (get_last_processed_row e s) < en"
proof -
  let ?M = "fst (get_last_processed_row e s)"
  have n: "n = ?M div 1000 + 1" and en: "en = (?M div 1000 + 1) * 1000"
    using assms by (auto simp add: resolve_auto)
  have "?M = ?M div 1000 * 1000 + ?M mod 1000" by simp
  moreover have "0 \<le> ?M mod 1000" "?M mod 1000 < 1000" by simp_all
  ultimately have "?M div 1000 * 1000 \<le> ?M" "?M < ?M div 1000 * 1000 + 1000"
    by linarith+
  then show ?thesis by (simp add: n en algebra_simps)
qed

text \<open>
  Claim C10, as amended. The ordinals of the candidates of a batch are
  \<open>start_row, start_row + 1, \<dots>\<close> over the rows that survive the cleaning. The
  largest ordinal is read by a MAX query that succeeds. For a batch whose number is
  derived from the high-water mark, the largest ordinal before the run is at least
  \<open>(n - 1) * 1000\<close> and below \<open>end_row\<close>. When at least one row of the batch is
  rejected, and the batch number was derived or the staging table held no ordinal at or
  beyond \<open>end_row\<close> before the run, the largest ordinal after the run is below
  \<open>end_row\<close>; when moreover the batch number was derived, or the run stages a row,
  or the largest ordinal before the run was at least \<open>(n - 1) * 1000\<close>, the batch
  number derived after the run is the number of the batch just run.
\<close>

theorem rejected_rows_stall_the_high_water_mark:
  assumes res: "resolve_window e s bn = ((n, st, en), s0)"
    and q: "\<not> fails e LastRowQuery"
    and rej: "length (filter nonzero_quantity (filter not_na (read_csv e st en)))
                < length (read_csv e st en)"
    and q': "\<not> fails e' LastRowQuery"
    and below: "bn = None \<or> fst (get_last_processed_row e s) < en"
  shows "map ROW_NUMBER_IN_FILE (candidates e n st en) =
           map (\<lambda>k. st + int k)
             [0 ..< length (filter nonzero_quantity (filter not_na (read_csv e st en)))]
         \<and> (bn = None \<longrightarrow> (n - 1) * 1000 \<le> fst (get_last_processed_row e s)
                            \<and> fst (get_last_processed_row e s) < en)
         \<and> fst (get_last_processed_row e' (snd (run_incremental_batch e s bn))) < en
         \<and> (bn = None \<or> written e s n st en \<noteq> []
              \<or> (n - 1) * 1000 \<le> fst (get_last_processed_row e s)
            \<longrightarrow> fst (fst (resolve_window e' (snd (run_incremental_batch e s bn)) None)) = n)"
proof -
  let ?k = "length (filter nonzero_quantity (filter not_na (read_csv e st en)))"
  let ?M = "fst (get_last_processed_row e s)"
  let ?s' = "snd (run_incremental_batch e s bn)"
  let ?M' = "fst (get_last_processed_row e' ?s')"
  let ?w = "written e s n st en"
  have b: "st = (n - 1) * 1000 + 1" "en = n * 1000"
    using resolve_bounds [OF res] by simp_all
  have der: "(n - 1) * 1000 \<le> ?M \<and> ?M < en" if "bn = None"
    using res that derived_window [of e s n st en s0] by simp
  have bl: "?M < en"
    using below der by blast
  have "int (length (read_csv e st en)) \<le> 1000"
    using read_csv_length [of e st en] b by simp
  then have k: "int ?k \<le> 999" using rej by simp
  have w: "st \<le> ROW_NUMBER_IN_FILE r \<and> ROW_NUMBER_IN_FILE r < en" if "r \<in> set ?w" for r
    using written_ordinals [OF that] k b by simp
  have stg: "staging ?s' = staging s @ ?w" using res by (rule run_staging)
  have Mv: "?M = (if staging s = [] then 0 else Max (ROW_NUMBER_IN_FILE ` set (staging s)))"
    using q by (simp add: last_row_value)
  have M'v: "?M' = (if staging ?s' = [] then 0 else Max (ROW_NUMBER_IN_FILE ` set (staging ?s')))"
    using q' by (simp add: last_row_value)
  have old: "ROW_NUMBER_IN_FILE r \<le> ?M" if "r \<in> set (staging s)" for r
  proof -
    have "staging s \<noteq> []" using that by auto
    then show ?thesis using that by (simp add: Mv)
  qed
  let ?S = "ROW_NUMBER_IN_FILE ` set (staging ?s')"
  have in_S: "Max ?S \<in> ?S" and ge: "\<And>x. x \<in> ?S \<Longrightarrow> x \<le> Max ?S" if "staging ?s' \<noteq> []"
    using that by simp_all
  have upper: "?M' < en"
  proof (cases "staging ?s' = []")
    case True
    then have "staging s = []" using stg by simp
    then have "?M = 0" by (simp add: Mv)
    then show ?thesis using bl True by (simp add: M'v)
  next
    case False
    have "x < en" if "x \<in> ?S" for x
      using that old w bl unfolding stg by fastforce
    then show ?thesis using in_S [OF False] False by (simp add: M'v)
  qed
  have lower: "(n - 1) * 1000 \<le> ?M'" if d: "?w \<noteq> [] \<or> (n - 1) * 1000 \<le> ?M"
  proof (cases "?w = []")
    case False
    then obtain r where r: "r \<in> set ?w" by (cases ?w) auto
    then have ne: "staging ?s' \<noteq> []" unfolding stg by auto
    have "ROW_NUMBER_IN_FILE r \<in> ?S" using r unfolding stg by simp
    then have "ROW_NUMBER_IN_FILE r \<le> Max ?S" using ge [OF ne] by blast
    then show ?thesis using w [OF r] b ne by (simp add: M'v)
  next
    case True
    then have "staging ?s' = staging s" using stg by simp
    then have "?M' = ?M" by (simp add: Mv M'v)
    then show ?thesis using d True by simp
  qed
  have next_batch: "fst (fst (resolve_window e' ?s' None)) = n"
    if "bn = None \<or> ?w \<noteq> [] \<or> (n - 1) * 1000 \<le> ?M"
  proof -
    have "?w \<noteq> [] \<or> (n - 1) * 1000 \<le> ?M" using that der by blast
    then have "?M' div 1000 = n - 1"
      using lower upper b by (intro window_div) simp_all
    then show ?thesis by (simp add: resolve_auto)
  qed
  show ?thesis
    using candidates_ordinals [of e n st en] der upper next_batch by blast
qed

theorem rejected_rows_stall_the_high_water_mark_witness:
  "resolve_window two_batches_env empty_warehouse None = ((1, 1, 1000), empty_warehouse)
   \<and> \<not> fails two_batches_env LastRowQuery
   \<and> length (filter nonzero_quantity (filter not_na (read_csv two_batches_env 1 1000)))
       < length (read_csv two_batches_env 1 1000)
   \<and> map ROW_NUMBER_IN_FILE (candidates two_batches_env 1 1 1000) = [1]
   \<and> fst (get_last_processed_row two_batches_env
            (snd (run_incremental_batch two_batches_env empty_warehouse None))) < 1000
   \<and> fst (fst (resolve_window two_batches_env
                 (snd (run_incremental_batch two_batches_env empty_warehouse None)) None)) = 1
   \<and> map ROW_NUMBER_IN_FILE (staging after_batch_1) = [1]
   \<and> resolve_window two_batches_env after_batch_1 None = ((1, 1, 1000), after_batch_1)
   \<and> fst (get_last_processed_row two_batches_env
            (snd (run_incremental_batch two_batches_env after_batch_1 None))) < 1000
   \<and> fst (fst (resolve_window two_batches_env
                 (snd (run_incremental_batch two_batches_env after_batch_1 None)) None)) = 1
   \<and> resolve_window two_batches_env after_batch_1 (Some 1) = ((1, 1, 1000), after_batch_1)
   \<and> fst (get_last_processed_row two_batches_env after_batch_1) = 1
   \<and> fst (fst (resolve_window two_batches_env
                 (snd (run_incremental_batch two_batches_env after_batch_1 (Some 1))) None)) = 1"
proof -
  let ?e = two_batches_env
  have m: "fst (get_last_processed_row ?e empty_warehouse) = 0"
    by (simp add: last_row_value empty_warehouse_def)
  have a: "resolve_window ?e empty_warehouse None = ((1, 1, 1000), empty_warehouse)"
    by (simp add: resolve_auto m)
  have d: "None = None \<or> fst (get_last_processed_row ?e s) < 1000" for s :: warehouse
    by simp
  note t = rejected_rows_stall_the_high_water_mark [OF a two_batches_no_failure rejected_in_batch_1 two_batches_no_failure d]
  have o: "map ROW_NUMBER_IN_FILE (candidates ?e 1 1 1000) = [1]"
    by (simp add: candidates_batch_1 row_1_eq)
  have h: "fst (get_last_processed_row ?e (snd (run_incremental_batch ?e empty_warehouse None)))
             < 1000"
    using t by blast
  have nx: "fst (fst (resolve_window ?e
                 (snd (run_incremental_batch ?e empty_warehouse None)) None)) = 1"
    using t by blast
  have st: "staging after_batch_1 = [row_1]" using first_run by simp
  have o1: "map ROW_NUMBER_IN_FILE (staging after_batch_1) = [1]"
    by (simp add: st row_1_eq)
  have m1: "fst (get_last_processed_row ?e after_batch_1) = 1"
    by (simp add: last_row_value two_batches_no_failure st row_1_eq)
  have a1: "resolve_window ?e after_batch_1 None = ((1, 1, 1000), after_batch_1)"
    by (simp add: resolve_auto m1)
  note t1 = rejected_rows_stall_the_high_water_mark [OF a1 two_batches_no_failure rejected_in_batch_1 two_batches_no_failure d]
  have h1: "fst (get_last_processed_row ?e (snd (run_incremental_batch ?e after_batch_1 None)))
             < 1000"
    using t1 by blast
  have nx1: "fst (fst (resolve_window ?e
                 (snd (run_incremental_batch ?e after_batch_1 None)) None)) = 1"
    using t1 by blast
  have a2: "resolve_window ?e after_batch_1 (Some 1) = ((1, 1, 1000), after_batch_1)"
    by (simp add: resolve_explicit)
  have d2: "Some 1 = None \<or> fst (get_last_processed_row ?e after_batch_1) < 1000"
    by (simp add: m1)
  note t2 = rejected_rows_stall_the_high_water_mark [OF a2 two_batches_no_failure rejected_in_batch_1 two_batches_no_failure d2]
  have "(1 - 1) * 1000 \<le> fst (get_last_processed_row ?e after_batch_1)"
    by (simp add: m1)
  then have nx2: "fst (fst (resolve_window ?e
                 (snd (run_incremental_batch ?e after_batch_1 (Some 1))) None)) = 1"
    using t2 by blast
  show ?thesis
    using a two_batches_no_failure [of LastRowQuery] rejected_in_batch_1 o h nx o1 a1 h1 nx1
      a2 m1 nx2
    by blast
qed

lemma load_body_batch_2_first:
  "staging s = [] \<Longrightarrow>
     load_body two_batches_env s 2 1001 2000
       = Inr (insert_rows two_batches_env [row_1001] (0, s))"
  using dates_parse(2) frames_not_empty(2)
  by (simp add: load_body_def two_batches_no_failure candidates_batch_2)

lemma load_body_batch_1_second:
  "staging s = [row_1001] \<Longrightarrow>
     load_body two_batches_env s 1 1 1000 = Inr (insert_rows two_batches_env [row_1] (0, s))"
  using dates_parse(1) frames_not_empty(1) keys_differ
  by (simp add: load_body_def two_batches_no_failure candidates_batch_1 no_key_concat_error)

lemma written_batch_2_first: "staging s = [] \<Longrightarrow> written two_batches_env s 2 1001 2000 = [row_1001]"
  by (simp add: written_def load_body_batch_2_first two_batches_no_failure deduplicated_def
      candidates_batch_2)

lemma written_batch_1_second: "staging s = [row_1001] \<Longrightarrow> written two_batches_env s 1 1 1000 = [row_1]"
  using keys_differ
  by (simp add: written_def load_body_batch_1_second two_batches_no_failure deduplicated_def
      candidates_batch_1)

lemma read_all_rejected:
  "read_csv all_rejected_env 1001 2000 = [line ''A536366'' ''B'' 0 1 17850]"
  by (simp add: read_csv_def all_rejected_env_def env_of_def)

lemma written_all_rejected: "written all_rejected_env s 2 1001 2000 = []"
proof -
  have "candidates all_rejected_env 2 1001 2000 = []"
    unfolding candidates_def read_all_rejected
    by (simp add: not_na_def nonzero_quantity_def line_def add_metadata_def enumerate_eq_zip)
  then show ?thesis
    using written_subset [of all_rejected_env s 2 1001 2000]
    by (cases "written all_rejected_env s 2 1001 2000") auto
qed

text \<open>
  Claim C10 as stated fails in two ways. A batch loaded out of order: batch 2 is
  loaded first (ordinal 1001), then batch 1, of which 999 rows are rejected and whose
  load writes one row; the largest ordinal after batch 1 is 1001, not below its
  \<open>end_row\<close> 1000, and the derived batch number is 2, not 1. A batch ahead of the high-water mark that stages
  nothing: on an empty staging table, batch 2 has one row and it is rejected; the
  largest ordinal stays 0 and the derived batch number is 1, not 2.
\<close>

theorem out_of_order_batch_passes_end_row:
  "staging batch_2_first = [row_1001]
   \<and> length (filter nonzero_quantity (filter not_na (read_csv two_batches_env 1 1000)))
       < length (read_csv two_batches_env 1 1000)
   \<and> fst (resolve_window two_batches_env batch_2_first (Some 1)) = (1, 1, 1000)
   \<and> map_sum id fst (load_body two_batches_env batch_2_first 1 1 1000) = Inr 1
   \<and> map ROW_NUMBER_IN_FILE (staging batch_1_after_2) = [1001, 1]
   \<and> fst (get_last_processed_row two_batches_env batch_1_after_2) = 1001
   \<and> fst (fst (resolve_window two_batches_env batch_1_after_2 None)) = 2
   \<and> length (filter nonzero_quantity (filter not_na (read_csv all_rejected_env 1001 2000)))
       < length (read_csv all_rejected_env 1001 2000)
   \<and> fst (resolve_window all_rejected_env empty_warehouse (Some 2)) = (2, 1001, 2000)
   \<and> staging (snd (run_incremental_batch all_rejected_env empty_warehouse (Some 2))) = []
   \<and> fst (fst (resolve_window all_rejected_env
                 (snd (run_incremental_batch all_rejected_env empty_warehouse (Some 2))) None))
       = 1"
proof -
  have e: "staging empty_warehouse = []" by (simp add: empty_warehouse_def)
  have s2: "staging batch_2_first = [row_1001]"
    unfolding batch_2_first_def run_staging [OF resolve_explicit]
    using written_batch_2_first [OF e] by (simp add: e)
  have s1: "staging batch_1_after_2 = [row_1001, row_1]"
    unfolding batch_1_after_2_def run_staging [OF resolve_explicit]
    using written_batch_1_second [OF s2] by (simp add: s2)
  have o: "ROW_NUMBER_IN_FILE row_1001 = 1001" "ROW_NUMBER_IN_FILE row_1 = 1"
    by (simp_all add: row_1001_eq row_1_eq)
  have lb: "map_sum id fst (load_body two_batches_env batch_2_first 1 1 1000) = Inr 1"
    using load_body_batch_1_second [OF s2] by (simp add: two_batches_no_failure)
  have m: "fst (get_last_processed_row two_batches_env batch_1_after_2) = 1001"
    by (simp add: last_row_value two_batches_no_failure s1 o)
  have first: "staging batch_2_first = [row_1001]
     \<and> length (filter nonzero_quantity (filter not_na (read_csv two_batches_env 1 1000)))
         < length (read_csv two_batches_env 1 1000)
     \<and> fst (resolve_window two_batches_env batch_2_first (Some 1)) = (1, 1, 1000)
     \<and> map_sum id fst (load_body two_batches_env batch_2_first 1 1 1000) = Inr 1
     \<and> map ROW_NUMBER_IN_FILE (staging batch_1_after_2) = [1001, 1]
     \<and> fst (get_last_processed_row two_batches_env batch_1_after_2) = 1001
     \<and> fst (fst (resolve_window two_batches_env batch_1_after_2 None)) = 2"
    using s2 rejected_in_batch_1 m lb by (simp add: s1 o resolve_explicit resolve_auto)
  have rj: "length (filter nonzero_quantity (filter not_na (read_csv all_rejected_env 1001 2000)))
       < length (read_csv all_rejected_env 1001 2000)"
    unfolding read_all_rejected by (simp add: not_na_def nonzero_quantity_def line_def)
  have s3: "staging (snd (run_incremental_batch all_rejected_env empty_warehouse (Some 2))) = []"
    unfolding run_staging [OF resolve_explicit] by (simp add: e written_all_rejected)
  have m3: "fst (get_last_processed_row all_rejected_env
                   (snd (run_incremental_batch all_rejected_env empty_warehouse (Some 2)))) = 0"
    by (simp add: last_row_value s3)
  have second: "fst (resolve_window all_rejected_env empty_warehouse (Some 2)) = (2, 1001, 2000)
     \<and> fst (fst (resolve_window all_rejected_env
                 (snd (run_incremental_batch all_rejected_env empty_warehouse (Some 2))) None))
         = 1"
    by (simp add: resolve_explicit resolve_auto m3)
  show ?thesis
    using first rj s3 second by blast
qed

subsection \<open>What the cleaning filters keep out\<close>

text \<open>
  Where no date fails to parse, the cleaning keeps exactly the rows whose invoice
  number, stock code, date, quantity and unit price are present and parsed and whose
  quantity is not 0. No row that a load writes and no fact that a publication appends
  has quantity 0.
\<close>

lemma cleaning_keeps:
  "r \<in> set (filter nonzero_quantity (filter not_na df)) \<longleftrightarrow>
     r \<in> set df \<and> raw_invoice_no r \<noteq> None \<and> raw_stock_code r \<noteq> None
     \<and> (\<exists>t. raw_invoice_date r = Parsed t)
     \<and> (\<exists>q. raw_quantity r = Parsed q \<and> q \<noteq> 0)
     \<and> (\<exists>p. raw_unit_price r = Parsed p)"
proof -
  have c: "coerce x \<noteq> None \<longleftrightarrow> (\<exists>v. x = Parsed v)" for x :: "'a cell"
    by (cases x) simp_all
  have z: "coerce x \<noteq> None \<and> coerce x \<noteq> Some 0 \<longleftrightarrow> (\<exists>q. x = Parsed q \<and> q \<noteq> 0)"
    for x :: "int cell"
    by (cases x) simp_all
  show ?thesis
    using z [of "raw_quantity r"] c [of "raw_invoice_date r"] c [of "raw_unit_price r"]
    by (simp add: not_na_def nonzero_quantity_def) blast
qed

lemma candidate_quantity_nonzero:
  assumes "r \<in> set (candidates e n st en)"
  shows "QUANTITY r \<noteq> 0"
proof -
  let ?df = "filter nonzero_quantity (filter not_na (read_csv e st en))"
  from assms obtain k raw where kr: "(k, raw) \<in> set (List.enumerate 0 ?df)"
    and r: "r = to_staged e (read_csv e st en) n (st + int k) raw"
    by (auto simp add: candidates_def add_metadata_def)
  have "k < length ?df \<and> ?df ! k = raw"
    using kr by (simp add: in_set_enumerate_eq del: filter_filter)
  then have "raw \<in> set ?df" using nth_mem by blast
  then obtain q where "raw_quantity raw = Parsed q" "q \<noteq> 0"
    unfolding cleaning_keeps by blast
  then show ?thesis by (simp add: r to_staged_def Let_def)
qed

lemma written_quantity_nonzero:
  "r \<in> set (written e s n st en) \<Longrightarrow> QUANTITY r \<noteq> 0"
  using written_subset candidate_quantity_nonzero by blast

lemma published_quantity_nonzero:
  assumes "append_to_transactions_fact e s n = Inr s'"
  shows "\<exists>new. transactions s' = transactions s @ new \<and> (\<forall>f \<in> set new. F_QUANTITY f \<noteq> 0)"
  using assms
  by (auto simp add: append_to_transactions_fact_def to_fact_def split: if_splits)

end
